theory Spec2Isabelle
  imports Complex_Main "HOL-Library.Product_Lexorder"
begin

section \<open>Strings\<close>

text \<open>
  Model names, form factors, power-plan names and health strings are \<^typ>\<open>string\<close>s:
  lists of code units below 256 (ISO 8859-1, of which ASCII is the lower half); strings
  with a code unit from 256 on are not modelled. The four string operations the engine
  uses are written out on these: \<open>toLowerCase\<close> maps \<open>A\<close>..\<open>Z\<close> and the capital
  letters 192..222 (but not the sign 215) to the letter 32 places on, \<open>trim\<close> strips
  leading and trailing white space (tab, line feed, vertical tab, form feed, carriage
  return, space, no-break space), \<open>str_includes\<close> is the contiguous-substring test of
  \<open>String.prototype.includes\<close>, and \<open>replaceWhitespace\<close> is
  \<open>s.replace(/\s+/g, "-")\<close>.
\<close>

definition toLowerChar :: "char \<Rightarrow> char" where
  "toLowerChar c =
     (let n = (of_char c :: nat) in
      if (65 \<le> n \<and> n \<le> 90) \<or> (192 \<le> n \<and> n \<le> 222 \<and> n \<noteq> 215) then char_of (n + 32)
      else c)"

definition toLowerCase :: "string \<Rightarrow> string" where
  "toLowerCase s = map toLowerChar s"

definition isWhitespace :: "char \<Rightarrow> bool" where
  "isWhitespace c = ((of_char c :: nat) \<in> {9, 10, 11, 12, 13, 32, 160})"

definition trim :: "string \<Rightarrow> string" where
  "trim s = rev (dropWhile isWhitespace (rev (dropWhile isWhitespace s)))"

fun startsWith :: "string \<Rightarrow> string \<Rightarrow> bool" where
  "startsWith s [] = True"
| "startsWith [] (p # ps) = False"
| "startsWith (c # cs) (p # ps) = (c = p \<and> startsWith cs ps)"

fun str_includes :: "string \<Rightarrow> string \<Rightarrow> bool" where
  "str_includes [] sub = (sub = [])"
| "str_includes (c # cs) sub = (startsWith (c # cs) sub \<or> str_includes cs sub)"

function replaceWhitespace :: "string \<Rightarrow> string" where
  "replaceWhitespace [] = []"
| "replaceWhitespace (c # cs) =
     (if isWhitespace c then CHR ''-'' # replaceWhitespace (dropWhile isWhitespace cs)
      else c # replaceWhitespace cs)"
  by pat_completeness auto
termination
  by (relation "measure length") (auto simp: le_imp_less_Suc length_dropWhile_le)

section \<open>Hardware reference catalog (data/hardware-db.ts)\<close>

text \<open>
  JavaScript numbers are modelled as exact rationals: every number that reaches the
  engine comes from a JSON document or from the catalog literals, and the engine only
  compares, adds, subtracts, multiplies and divides them. The rounding of double
  precision, and the values \<open>NaN\<close> and \<open>Infinity\<close>, which no JSON document holds, are
  not modelled. Scores, priorities and tier ranks are integers.
\<close>

datatype HardwareTier = Very_high | High | Mid | Low | Very_low

record HardwareEntry =
  name :: string
  tier :: HardwareTier
  gaming_score :: rat
  release_year :: rat
  msrp :: rat
  current_price_approx :: rat

abbreviation mkEntry ::
  "string \<Rightarrow> HardwareTier \<Rightarrow> rat \<Rightarrow> rat \<Rightarrow> rat \<Rightarrow> rat \<Rightarrow> HardwareEntry" where
  "mkEntry n t g y m p \<equiv>
     \<lparr>name = n, tier = t, gaming_score = g, release_year = y, msrp = m,
      current_price_approx = p\<rparr>"

text \<open>
  A catalog is the list of the table's own \<open>(key, entry)\<close> pairs in the order
  \<open>Object.entries\<close> enumerates them, which for the keys used here (none is an array
  index) is the order of declaration. Keys are pairwise distinct.
\<close>

type_synonym Catalog = "(string \<times> HardwareEntry) list"

definition cpuDatabase :: "Catalog" where
  "cpuDatabase = [
    (''amd ryzen 9 9950x3d'', mkEntry ''AMD Ryzen 9 9950X3D'' Very_high 97 2025 699 699),
    (''amd ryzen 9 9900x3d'', mkEntry ''AMD Ryzen 9 9900X3D'' Very_high 96 2025 599 599),
    (''amd ryzen 7 9850x3d'', mkEntry ''AMD Ryzen 7 9850X3D'' Very_high 99 2026 499 499),
    (''amd ryzen 7 9800x3d'', mkEntry ''AMD Ryzen 7 9800X3D'' Very_high 98 2024 479 449),
    (''amd ryzen 9 9950x'', mkEntry ''AMD Ryzen 9 9950X'' Very_high 97 2024 649 549),
    (''amd ryzen 9 9900x'', mkEntry ''AMD Ryzen 9 9900X'' Very_high 94 2024 499 399),
    (''amd ryzen 7 9700x'', mkEntry ''AMD Ryzen 7 9700X'' High 90 2024 359 299),
    (''amd ryzen 5 9600x'', mkEntry ''AMD Ryzen 5 9600X'' High 86 2024 279 229),
    (''amd ryzen 9 7950x'', mkEntry ''AMD Ryzen 9 7950X'' Very_high 93 2022 699 449),
    (''amd ryzen 9 7900x'', mkEntry ''AMD Ryzen 9 7900X'' Very_high 91 2022 549 349),
    (''amd ryzen 7 7800x3d'', mkEntry ''AMD Ryzen 7 7800X3D'' Very_high 96 2023 449 339),
    (''amd ryzen 7 7700x'', mkEntry ''AMD Ryzen 7 7700X'' High 87 2022 399 249),
    (''amd ryzen 5 7600x'', mkEntry ''AMD Ryzen 5 7600X'' High 84 2022 299 199),
    (''amd ryzen 5 7600'', mkEntry ''AMD Ryzen 5 7600'' High 82 2023 229 179),
    (''amd ryzen 7 5700x3d'', mkEntry ''AMD Ryzen 7 5700X3D'' High 83 2024 249 189),
    (''amd ryzen 7 5700x'', mkEntry ''AMD Ryzen 7 5700X'' High 75 2022 299 149),
    (''amd ryzen 9 5950x'', mkEntry ''AMD Ryzen 9 5950X'' High 82 2020 799 349),
    (''amd ryzen 9 5900x'', mkEntry ''AMD Ryzen 9 5900X'' High 81 2020 549 249),
    (''amd ryzen 7 5800x'', mkEntry ''AMD Ryzen 7 5800X'' High 78 2020 449 169),
    (''amd ryzen 7 5800x3d'', mkEntry ''AMD Ryzen 7 5800X3D'' High 85 2022 449 249),
    (''amd ryzen 5 5600x'', mkEntry ''AMD Ryzen 5 5600X'' Mid 72 2020 299 119),
    (''intel core ultra 9 285k'', mkEntry ''Intel Core Ultra 9 285K'' Very_high 90 2024 589 449),
    (''intel core ultra 7 265k'', mkEntry ''Intel Core Ultra 7 265K'' High 86 2024 394 249),
    (''intel core ultra 5 245k'', mkEntry ''Intel Core Ultra 5 245K'' High 82 2024 309 209),
    (''intel core i9-14900k'', mkEntry ''Intel Core i9-14900K'' Very_high 95 2023 589 439),
    (''intel core i7-14700k'', mkEntry ''Intel Core i7-14700K'' Very_high 92 2023 419 329),
    (''intel core i5-14600k'', mkEntry ''Intel Core i5-14600K'' High 87 2023 319 249),
    (''intel core i5-14400f'', mkEntry ''Intel Core i5-14400F'' Mid 75 2024 199 159),
    (''intel core i9-13900k'', mkEntry ''Intel Core i9-13900K'' Very_high 93 2022 589 379),
    (''intel core i7-13700k'', mkEntry ''Intel Core i7-13700K'' High 89 2022 419 289),
    (''intel core i5-13600k'', mkEntry ''Intel Core i5-13600K'' High 85 2022 319 219),
    (''intel core i5-13400f'', mkEntry ''Intel Core i5-13400F'' Mid 72 2023 199 149),
    (''intel core i9-12900k'', mkEntry ''Intel Core i9-12900K'' High 84 2021 589 269),
    (''intel core i7-12700k'', mkEntry ''Intel Core i7-12700K'' High 82 2021 409 219),
    (''intel core i5-12600k'', mkEntry ''Intel Core i5-12600K'' Mid 76 2021 289 169),
    (''intel core i5-12400f'', mkEntry ''Intel Core i5-12400F'' Mid 68 2022 179 109),
    (''intel core i3-14100f'', mkEntry ''Intel Core i3-14100F'' Low 60 2024 110 89),
    (''amd ryzen 5 5500'', mkEntry ''AMD Ryzen 5 5500'' Low 58 2022 159 89),
    (''intel core i3-12100f'', mkEntry ''Intel Core i3-12100F'' Low 55 2022 109 79),
    (''amd ryzen 5 3600'', mkEntry ''AMD Ryzen 5 3600'' Low 52 2019 199 79)]"

definition gpuDatabase :: "Catalog" where
  "gpuDatabase = [
    (''nvidia geforce rtx 5090'', mkEntry ''NVIDIA GeForce RTX 5090'' Very_high 100 2025 1999 2199),
    (''nvidia geforce rtx 5080'', mkEntry ''NVIDIA GeForce RTX 5080'' Very_high 90 2025 999 1099),
    (''nvidia geforce rtx 5070 ti'', mkEntry ''NVIDIA GeForce RTX 5070 Ti'' Very_high 84 2025 749 849),
    (''nvidia geforce rtx 5070'', mkEntry ''NVIDIA GeForce RTX 5070'' High 78 2025 549 629),
    (''nvidia geforce rtx 5060 ti'', mkEntry ''NVIDIA GeForce RTX 5060 Ti'' High 70 2025 429 429),
    (''nvidia geforce rtx 5060'', mkEntry ''NVIDIA GeForce RTX 5060'' Mid 58 2025 299 299),
    (''nvidia geforce rtx 4090'', mkEntry ''NVIDIA GeForce RTX 4090'' Very_high 96 2022 1599 1799),
    (''nvidia geforce rtx 4080 super'', mkEntry ''NVIDIA GeForce RTX 4080 SUPER'' Very_high 86 2024 999 949),
    (''nvidia geforce rtx 4080'', mkEntry ''NVIDIA GeForce RTX 4080'' Very_high 84 2022 1199 899),
    (''nvidia geforce rtx 4070 ti super'', mkEntry ''NVIDIA GeForce RTX 4070 Ti SUPER'' High 80 2024 799 749),
    (''nvidia geforce rtx 4070 ti'', mkEntry ''NVIDIA GeForce RTX 4070 Ti'' High 76 2023 799 649),
    (''nvidia geforce rtx 4070 super'', mkEntry ''NVIDIA GeForce RTX 4070 SUPER'' High 73 2024 599 569),
    (''nvidia geforce rtx 4070'', mkEntry ''NVIDIA GeForce RTX 4070'' High 68 2023 599 499),
    (''nvidia geforce rtx 4060 ti'', mkEntry ''NVIDIA GeForce RTX 4060 Ti'' Mid 58 2023 399 369),
    (''nvidia geforce rtx 4060'', mkEntry ''NVIDIA GeForce RTX 4060'' Mid 50 2023 299 279),
    (''nvidia geforce rtx 3090 ti'', mkEntry ''NVIDIA GeForce RTX 3090 Ti'' High 75 2022 1999 899),
    (''nvidia geforce rtx 3090'', mkEntry ''NVIDIA GeForce RTX 3090'' High 72 2020 1499 799),
    (''nvidia geforce rtx 3080 ti'', mkEntry ''NVIDIA GeForce RTX 3080 Ti'' High 70 2021 1199 549),
    (''nvidia geforce rtx 3080'', mkEntry ''NVIDIA GeForce RTX 3080'' High 67 2020 699 499),
    (''nvidia geforce rtx 3070 ti'', mkEntry ''NVIDIA GeForce RTX 3070 Ti'' Mid 62 2021 599 369),
    (''nvidia geforce rtx 3070'', mkEntry ''NVIDIA GeForce RTX 3070'' Mid 58 2020 499 329),
    (''nvidia geforce rtx 3060 ti'', mkEntry ''NVIDIA GeForce RTX 3060 Ti'' Mid 52 2020 399 269),
    (''nvidia geforce rtx 3060'', mkEntry ''NVIDIA GeForce RTX 3060'' Mid 44 2021 329 229),
    (''nvidia geforce gtx 1660 super'', mkEntry ''NVIDIA GeForce GTX 1660 SUPER'' Low 30 2019 229 139),
    (''nvidia geforce gtx 1650'', mkEntry ''NVIDIA GeForce GTX 1650'' Very_low 20 2019 149 99),
    (''intel arc b580'', mkEntry ''Intel Arc B580'' Mid 46 2024 249 249),
    (''intel arc b570'', mkEntry ''Intel Arc B570'' Mid 42 2025 219 219),
    (''intel arc a770'', mkEntry ''Intel Arc A770'' Mid 42 2022 349 219),
    (''amd radeon rx 9070 xt'', mkEntry ''AMD Radeon RX 9070 XT'' High 76 2025 549 579),
    (''amd radeon rx 9070'', mkEntry ''AMD Radeon RX 9070'' High 68 2025 449 479),
    (''amd radeon rx 9060 xt'', mkEntry ''AMD Radeon RX 9060 XT'' Mid 55 2025 349 349),
    (''amd radeon rx 7900 xtx'', mkEntry ''AMD Radeon RX 7900 XTX'' Very_high 85 2022 999 849),
    (''amd radeon rx 7900 xt'', mkEntry ''AMD Radeon RX 7900 XT'' High 78 2022 899 699),
    (''amd radeon rx 7800 xt'', mkEntry ''AMD Radeon RX 7800 XT'' High 65 2023 499 429),
    (''amd radeon rx 7700 xt'', mkEntry ''AMD Radeon RX 7700 XT'' Mid 58 2023 449 379),
    (''amd radeon rx 7600'', mkEntry ''AMD Radeon RX 7600'' Mid 45 2023 269 239),
    (''amd radeon rx 6950 xt'', mkEntry ''AMD Radeon RX 6950 XT'' High 70 2022 1099 499),
    (''amd radeon rx 6800 xt'', mkEntry ''AMD Radeon RX 6800 XT'' High 65 2020 649 389),
    (''amd radeon rx 6700 xt'', mkEntry ''AMD Radeon RX 6700 XT'' Mid 48 2021 479 249),
    (''amd radeon rx 6600'', mkEntry ''AMD Radeon RX 6600'' Low 35 2021 329 169)]"

definition TIER_ORDER :: "HardwareTier list" where
  "TIER_ORDER = [Very_low, Low, Mid, High, Very_high]"

text \<open>\<open>Array.prototype.indexOf\<close>: the first position of the element, or \<open>-1\<close>.\<close>

fun indexOf :: "'a list \<Rightarrow> 'a \<Rightarrow> int" where
  "indexOf [] x = -1"
| "indexOf (y # ys) x =
     (if y = x then 0 else (let r = indexOf ys x in if r < 0 then -1 else r + 1))"

definition tierIndex :: "HardwareTier \<Rightarrow> int" where
  "tierIndex t = indexOf TIER_ORDER t"

text \<open>
  Both tables are object literals, so the property read \<open>db[key]\<close> finds, besides the
  table's own pairs, the members every plain object inherits from \<open>Object.prototype\<close>:
  for the key \<open>constructor\<close> the function \<open>Object\<close>, for \<open>__proto__\<close> the prototype
  itself. Each of these members is a function or an object, hence truthy, and none has any
  field of an entry. A looked-up value is therefore an entry or an inherited member,
  named by its key. An own pair shadows an inherited member of the same name.
\<close>

datatype LookupValue = Entry HardwareEntry | Inherited string

definition objectPrototypeMembers :: "string list" where
  "objectPrototypeMembers =
     [''constructor'', ''__proto__'', ''hasOwnProperty'', ''isPrototypeOf'',
      ''propertyIsEnumerable'', ''toLocaleString'', ''toString'', ''valueOf'',
      ''__defineGetter__'', ''__defineSetter__'', ''__lookupGetter__'', ''__lookupSetter__'']"

definition propertyRead :: "Catalog \<Rightarrow> string \<Rightarrow> LookupValue option" where
  "propertyRead db key =
     (case map_of db key of
        Some entry \<Rightarrow> Some (Entry entry)
      | None \<Rightarrow>
          if List.member objectPrototypeMembers key then Some (Inherited key) else None)"

text \<open>
  The read \<open>x.tier\<close> of a looked-up value is undefined on an inherited member, and
  \<open>tierIndex(x.tier)\<close> is then \<open>TIER_ORDER.indexOf(undefined)\<close>.
\<close>

definition tierOf :: "LookupValue \<Rightarrow> HardwareTier option" where
  "tierOf x = (case x of Entry e \<Rightarrow> Some (tier e) | Inherited m \<Rightarrow> None)"

definition tierIndexOf :: "LookupValue \<Rightarrow> int" where
  "tierIndexOf x = indexOf (map Some TIER_ORDER) (tierOf x)"

text \<open>
  \<open>lookupCPU\<close> and \<open>lookupGPU\<close> have the same body over different tables;
  \<open>lookupEntry\<close> is that body with the table as a parameter. The \<open>for\<close> loop over
  \<open>Object.entries\<close>, which enumerates own pairs only, is \<open>substringMatch\<close>.
\<close>

fun substringMatch :: "string \<Rightarrow> Catalog \<Rightarrow> LookupValue option" where
  "substringMatch key [] = None"
| "substringMatch key ((dbKey, entry) # rest) =
     (if str_includes key dbKey \<or> str_includes dbKey key then Some (Entry entry)
      else substringMatch key rest)"

definition lookupEntry :: "Catalog \<Rightarrow> string \<Rightarrow> LookupValue option" where
  "lookupEntry db modelName =
     (let key = trim (toLowerCase modelName) in
      case propertyRead db key of
        Some v \<Rightarrow> Some v
      | None \<Rightarrow> substringMatch key db)"

definition lookupCPU :: "string \<Rightarrow> LookupValue option" where
  "lookupCPU modelName = lookupEntry cpuDatabase modelName"

definition lookupGPU :: "string \<Rightarrow> LookupValue option" where
  "lookupGPU modelName = lookupEntry gpuDatabase modelName"

text \<open>
  \<open>Array.prototype.slice(0, n)\<close> for an integer \<open>n\<close>: a negative \<open>n\<close> counts from
  the end of the array.
\<close>

definition slice0 :: "'a list \<Rightarrow> int \<Rightarrow> 'a list" where
  "slice0 xs n = (if n < 0 then take (nat (int (length xs) + n)) xs else take (nat n) xs)"

text \<open>
  \<open>Array.prototype.sort\<close> with a comparator is a stable sort; on a comparator that is
  a total preorder every stable sort returns the same list, here by insertion from the
  right. \<open>cmp a b \<le> 0\<close> keeps \<open>a\<close> in front of \<open>b\<close>.
\<close>

fun insertBy :: "('a \<Rightarrow> 'a \<Rightarrow> 'n::{zero,ord}) \<Rightarrow> 'a \<Rightarrow> 'a list \<Rightarrow> 'a list" where
  "insertBy cmp x [] = [x]"
| "insertBy cmp x (y # ys) =
     (if cmp x y \<le> 0 then x # y # ys else y # insertBy cmp x ys)"

definition sortBy :: "('a \<Rightarrow> 'a \<Rightarrow> 'n::{zero,ord}) \<Rightarrow> 'a list \<Rightarrow> 'a list" where
  "sortBy cmp xs = foldr (insertBy cmp) xs []"

text \<open>\<open>a.current_price_approx || 1\<close>: the price unless it is zero, then 1.\<close>

definition priceOr1 :: "HardwareEntry \<Rightarrow> rat" where
  "priceOr1 e = (if current_price_approx e = 0 then 1 else current_price_approx e)"

definition valueRatio :: "HardwareEntry \<Rightarrow> rat" where
  "valueRatio e = gaming_score e / priceOr1 e"

text \<open>
  \<open>getUpgrades\<close> reads of its first argument the tier only. \<open>upgradesAbove\<close> is its
  body after \<open>currentTier\<close> is computed; \<open>getUpgrades\<close> is the function on an entry,
  and \<open>getUpgradesOf\<close> is the same call on a looked-up value, as the recommendation
  builder makes it.
\<close>

definition upgradesAbove :: "int \<Rightarrow> Catalog \<Rightarrow> int \<Rightarrow> HardwareEntry list" where
  "upgradesAbove currentTier database maxResults =
     slice0
       (sortBy (\<lambda>a b. valueRatio b - valueRatio a)
          (filter (\<lambda>entry. tierIndex (tier entry) > currentTier) (map snd database)))
       maxResults"

definition getUpgrades :: "HardwareEntry \<Rightarrow> Catalog \<Rightarrow> int \<Rightarrow> HardwareEntry list" where
  "getUpgrades current database maxResults =
     (let currentTier = tierIndex (tier current) in
      upgradesAbove currentTier database maxResults)"

definition getUpgradesOf :: "LookupValue \<Rightarrow> Catalog \<Rightarrow> int \<Rightarrow> HardwareEntry list" where
  "getUpgradesOf current database maxResults =
     (let currentTier = tierIndexOf current in
      upgradesAbove currentTier database maxResults)"

section \<open>Scan and report types (lib/types.ts)\<close>

text \<open>
  The records hold the fields the analysis engine reads. A field typed \<open>T | null\<close> is a
  \<^typ>\<open>'a option\<close>. The model-name and temperature fields of the CPU and GPU sections
  carry the section as a prefix, and the five fields of the score breakdown the suffix
  \<open>_score\<close>, because a field name is global here.
\<close>

record CPUInfo =
  cpu_model_name :: string
  max_boost_clock_ghz :: rat
  current_clock_ghz :: rat
  cpu_current_temp_c :: "rat option"
  usage_per_core :: "rat list"

record GPUInfo =
  gpu_model_name :: string
  vram_total_gb :: rat
  vram_used_gb :: rat
  gpu_current_temp_c :: "rat option"
  driver_version :: string
  gpu_utilization_pct :: rat

datatype ChannelMode = Single | Dual | Quad | UnknownMode

record RAMInfo =
  total_gb :: rat
  speed_mhz :: rat
  channel_mode :: ChannelMode
  form_factor :: string
  usage_percent :: rat

datatype DriveType = NVMe_SSD | SATA_SSD | HDD | Unknown

record StorageInfo =
  model :: string
  drive_type :: DriveType
  capacity_gb :: rat
  used_gb :: rat
  health_status :: "string option"
  is_boot_drive :: bool

record OSInfo =
  power_plan :: string
  game_mode :: "bool option"
  hw_accelerated_gpu_scheduling :: "bool option"

record BIOSSettings =
  xmp_enabled :: "bool option"
  resizable_bar :: "bool option"

record SystemScan =
  cpu :: CPUInfo
  gpu :: GPUInfo
  ram :: RAMInfo
  storage :: "StorageInfo list"
  os :: OSInfo
  bios_settings :: BIOSSettings

datatype Severity = Critical | Warning | Info | Good

datatype Category = Cat_cpu | Cat_gpu | Cat_ram | Cat_storage | Cat_thermal | Cat_settings

datatype Difficulty = Easy | Medium | Hard

text \<open>
  Of a finding the model keeps the identifying and classifying fields; the prose fields
  (title, description, impact, fix) are display text that no rule reads back.
\<close>

record Bottleneck =
  b_id :: string
  category :: Category
  severity :: Severity
  difficulty :: Difficulty
  b_estimated_cost :: string

abbreviation mkBottleneck ::
  "string \<Rightarrow> Category \<Rightarrow> Severity \<Rightarrow> Difficulty \<Rightarrow> string \<Rightarrow> Bottleneck" where
  "mkBottleneck i c s d e \<equiv>
     \<lparr>b_id = i, category = c, severity = s, difficulty = d, b_estimated_cost = e\<rparr>"

datatype RecTier = Free | Cheap | Upgrade

text \<open>
  The estimated cost of a recommendation is a string. \<open>CostText s\<close> is a literal;
  \<open>CostRange lo hi\<close> is the template \<open>`$${lo} - $${hi}`\<close> of the two upgrade
  recommendations, kept as the two numbers it displays.
\<close>

datatype Cost = CostText string | CostRange rat rat

record Recommendation =
  r_id :: string
  rec_tier :: RecTier
  r_estimated_cost :: Cost
  priority :: int

abbreviation mkRecommendation :: "string \<Rightarrow> RecTier \<Rightarrow> Cost \<Rightarrow> int \<Rightarrow> Recommendation" where
  "mkRecommendation i t e p \<equiv>
     \<lparr>r_id = i, rec_tier = t, r_estimated_cost = e, priority = p\<rparr>"

record Breakdown =
  cpu_score :: int
  gpu_score :: int
  ram_score :: int
  storage_score :: int
  settings_score :: int

record PerformanceScore =
  total :: int
  grade :: string
  grade_description :: string
  breakdown :: Breakdown

record AnalysisResult =
  score :: PerformanceScore
  bottlenecks :: "Bottleneck list"
  recommendations :: "Recommendation list"

section \<open>Helpers (lib/analysis.ts)\<close>

definition average :: "rat list \<Rightarrow> rat" where
  "average nums = (if length nums = 0 then 0 else foldl (+) 0 nums / of_nat (length nums))"

definition clamp :: "int \<Rightarrow> int \<Rightarrow> int \<Rightarrow> int" where
  "clamp v lo hi = max lo (min hi v)"

text \<open>
  \<open>drive.health_status && !["good", "ok", "healthy"].includes(...)\<close>: the status is
  present, not the empty string, and lower-cased none of the three words.
\<close>

definition unhealthy :: "StorageInfo \<Rightarrow> bool" where
  "unhealthy d =
     (case health_status d of
        None \<Rightarrow> False
      | Some h \<Rightarrow> h \<noteq> [] \<and> \<not> List.member [''good'', ''ok'', ''healthy''] (toLowerCase h))"

text \<open>The condition shared by the boost-clock rule and the boost-clock penalty.\<close>

definition belowBoost :: "CPUInfo \<Rightarrow> bool" where
  "belowBoost c =
     (current_clock_ghz c > 0 \<and> max_boost_clock_ghz c > 0 \<and>
      current_clock_ghz c < max_boost_clock_ghz c * (85 / 100))"

definition vramNearlyFull :: "GPUInfo \<Rightarrow> bool" where
  "vramNearlyFull g =
     (vram_total_gb g > 0 \<and> vram_used_gb g / vram_total_gb g > 9 / 10)"

section \<open>Rule evaluators\<close>

text \<open>
  Each evaluator appends to the shared findings array; here it returns the findings it
  appends, in the order of its \<open>push\<close> calls, and the caller concatenates.
\<close>

definition detectCPUBottlenecks ::
  "SystemScan \<Rightarrow> LookupValue option \<Rightarrow> LookupValue option \<Rightarrow> Bottleneck list" where
  "detectCPUBottlenecks scan cpuEntry gpuEntry =
     (let avgCpuUsage = average (usage_per_core (cpu scan));
          gpuUtil = gpu_utilization_pct (gpu scan)
      in
        (if avgCpuUsage > 90 \<and> gpuUtil < 60 then
           [mkBottleneck ''cpu-high-usage'' Cat_cpu Critical Medium ''$0 - $400'']
         else if avgCpuUsage > 80 \<and> gpuUtil < 70 then
           [mkBottleneck ''cpu-moderate-usage'' Cat_cpu Warning Easy ''$0'']
         else [])
        @ (case (cpuEntry, gpuEntry) of
             (Some ce, Some ge) \<Rightarrow>
               (let cpuTier = tierIndexOf ce; gpuTier = tierIndexOf ge in
                if gpuTier - cpuTier \<ge> 2 then
                  [mkBottleneck ''cpu-gpu-tier-mismatch'' Cat_cpu Warning Hard ''$200 - $500+'']
                else [])
           | _ \<Rightarrow> [])
        @ (if belowBoost (cpu scan) \<and> avgCpuUsage > 50 then
             [mkBottleneck ''cpu-not-boosting'' Cat_cpu Warning Easy ''$0'']
           else []))"

definition detectGPUBottlenecks ::
  "SystemScan \<Rightarrow> LookupValue option \<Rightarrow> LookupValue option \<Rightarrow> Bottleneck list" where
  "detectGPUBottlenecks scan cpuEntry gpuEntry =
     (let avgCpuUsage = average (usage_per_core (cpu scan));
          gpuUtil = gpu_utilization_pct (gpu scan)
      in
        (if gpuUtil > 95 \<and> avgCpuUsage < 60 then
           [mkBottleneck ''gpu-limited'' Cat_gpu Info Easy ''$0 - $800+'']
         else [])
        @ (if vramNearlyFull (gpu scan) then
             [mkBottleneck ''gpu-vram-full'' Cat_gpu Warning Easy ''$0'']
           else [])
        @ (case (cpuEntry, gpuEntry) of
             (Some ce, Some ge) \<Rightarrow>
               (let cpuTier = tierIndexOf ce; gpuTier = tierIndexOf ge in
                if cpuTier - gpuTier \<ge> 2 then
                  [mkBottleneck ''gpu-cpu-tier-mismatch'' Cat_gpu Warning Hard ''$300 - $800+'']
                else [])
           | _ \<Rightarrow> []))"

definition isDDR4 :: "RAMInfo \<Rightarrow> bool" where
  "isDDR4 r = str_includes (toLowerCase (form_factor r)) ''ddr4''"

definition isDDR5 :: "RAMInfo \<Rightarrow> bool" where
  "isDDR5 r = str_includes (toLowerCase (form_factor r)) ''ddr5''"

definition detectRAMBottlenecks :: "SystemScan \<Rightarrow> Bottleneck list" where
  "detectRAMBottlenecks scan =
     (if channel_mode (ram scan) = Single then
        [mkBottleneck ''ram-single-channel'' Cat_ram Critical Medium ''$25 - $60'']
      else [])
     @ (if total_gb (ram scan) < 16 then
          [mkBottleneck ''ram-low-capacity'' Cat_ram Warning Medium ''$30 - $80'']
        else [])
     @ (if usage_percent (ram scan) > 85 then
          [mkBottleneck ''ram-high-usage'' Cat_ram Warning Easy ''$0 - $60'']
        else [])
     @ (if isDDR4 (ram scan) \<and> speed_mhz (ram scan) < 3000 then
          [mkBottleneck ''ram-slow-speed'' Cat_ram Critical Easy ''$0'']
        else [])
     @ (if isDDR5 (ram scan) \<and> speed_mhz (ram scan) < 4800 then
          [mkBottleneck ''ram-slow-speed-ddr5'' Cat_ram Critical Easy ''$0'']
        else [])"

text \<open>The four blocks of \<open>detectStorageBottlenecks\<close>, in the order of the source.\<close>

definition hddBootFindings :: "StorageInfo option \<Rightarrow> Bottleneck list" where
  "hddBootFindings bootDrive =
     (case bootDrive of
        Some d \<Rightarrow>
          if drive_type d = HDD then
            [mkBottleneck ''storage-hdd-boot'' Cat_storage Critical Medium ''$25 - $70'']
          else []
      | None \<Rightarrow> [])"

definition bootSpaceFindings :: "StorageInfo option \<Rightarrow> Bottleneck list" where
  "bootSpaceFindings bootDrive =
     (case bootDrive of
        Some d \<Rightarrow>
          if capacity_gb d > 0 then
            (let usagePct = used_gb d / capacity_gb d in
             if usagePct > 9 / 10 then
               [mkBottleneck ''storage-boot-almost-full'' Cat_storage Warning Easy ''$0 - $80'']
             else if usagePct > 8 / 10 then
               [mkBottleneck ''storage-boot-getting-full'' Cat_storage Info Easy ''$0'']
             else [])
          else []
      | None \<Rightarrow> [])"

definition noNVMeFindings :: "StorageInfo list \<Rightarrow> Bottleneck list" where
  "noNVMeFindings drives =
     (let hasNVMe = list_ex (\<lambda>d. drive_type d = NVMe_SSD) drives in
      if \<not> hasNVMe then
        [mkBottleneck ''storage-no-nvme'' Cat_storage Info Medium ''$40 - $100'']
      else [])"

definition healthFinding :: "StorageInfo \<Rightarrow> Bottleneck" where
  "healthFinding drive =
     mkBottleneck (''storage-health-'' @ toLowerCase (replaceWhitespace (model drive)))
       Cat_storage Critical Medium ''$40 - $150''"

fun healthFindings :: "StorageInfo list \<Rightarrow> Bottleneck list" where
  "healthFindings [] = []"
| "healthFindings (drive # rest) =
     (if unhealthy drive then healthFinding drive # healthFindings rest
      else healthFindings rest)"

definition detectStorageBottlenecks :: "SystemScan \<Rightarrow> Bottleneck list" where
  "detectStorageBottlenecks scan =
     (let bootDrive = find is_boot_drive (storage scan) in
      hddBootFindings bootDrive
      @ bootSpaceFindings bootDrive
      @ noNVMeFindings (storage scan)
      @ healthFindings (storage scan))"

definition detectThermalBottlenecks :: "SystemScan \<Rightarrow> Bottleneck list" where
  "detectThermalBottlenecks scan =
     (let cpuTemp = cpu_current_temp_c (cpu scan);
          gpuTemp = gpu_current_temp_c (gpu scan)
      in
        (case cpuTemp of
           Some t \<Rightarrow>
             if t > 85 then
               [mkBottleneck ''thermal-cpu-critical'' Cat_thermal Critical Medium ''$5 - $80'']
             else if t > 75 then
               [mkBottleneck ''thermal-cpu-warm'' Cat_thermal Info Easy ''$0 - $20'']
             else []
         | None \<Rightarrow> [])
        @ (case gpuTemp of
             Some t \<Rightarrow>
               if t > 85 then
                 [mkBottleneck ''thermal-gpu-hot'' Cat_thermal Warning Medium ''$0 - $15'']
               else if t > 80 then
                 [mkBottleneck ''thermal-gpu-warm'' Cat_thermal Info Easy ''$0 - $20'']
               else []
           | None \<Rightarrow> []))"

definition detectSettingsBottlenecks :: "SystemScan \<Rightarrow> Bottleneck list" where
  "detectSettingsBottlenecks scan =
     (let powerPlan = toLowerCase (power_plan (os scan)) in
        (if \<not> str_includes powerPlan ''high performance'' \<and> \<not> str_includes powerPlan ''ultimate''
         then [mkBottleneck ''settings-power-plan'' Cat_settings Warning Easy ''$0'']
         else [])
        @ (if xmp_enabled (bios_settings scan) = Some False then
             [mkBottleneck ''settings-xmp-off'' Cat_settings Critical Easy ''$0'']
           else [])
        @ (if resizable_bar (bios_settings scan) = Some False then
             [mkBottleneck ''settings-rebar-off'' Cat_settings Info Easy ''$0'']
           else [])
        @ (if hw_accelerated_gpu_scheduling (os scan) = Some False then
             [mkBottleneck ''settings-gpu-scheduling'' Cat_settings Info Easy ''$0'']
           else [])
        @ (if game_mode (os scan) = Some False then
             [mkBottleneck ''settings-game-mode-off'' Cat_settings Info Easy ''$0'']
           else []))"

section \<open>Recommendation builder\<close>

text \<open>
  The builder appends to the recommendation array and increments \<open>priority\<close> at each
  append. The state is the pair of the array and the counter; \<open>pushIf c mk\<close> is one
  guarded \<open>recommendations.push({..., priority: priority++})\<close>.
\<close>

type_synonym RecState = "Recommendation list \<times> int"

definition pushIf :: "bool \<Rightarrow> (int \<Rightarrow> Recommendation) \<Rightarrow> RecState \<Rightarrow> RecState" where
  "pushIf c mk st = (if c then (fst st @ [mk (snd st)], snd st + 1) else st)"

definition has :: "Bottleneck list \<Rightarrow> string \<Rightarrow> bool" where
  "has bs i = list_ex (\<lambda>b. b_id b = i) bs"

definition hasCritical :: "Bottleneck list \<Rightarrow> string \<Rightarrow> bool" where
  "hasCritical bs i = list_ex (\<lambda>b. b_id b = i \<and> severity b = Critical) bs"

text \<open>
  \<open>Math.min(...prices)\<close> and \<open>Math.max(...prices)\<close> over the prices of a non-empty
  list of upgrades, given as its head and tail.
\<close>

definition minPrice :: "HardwareEntry \<Rightarrow> HardwareEntry list \<Rightarrow> rat" where
  "minPrice u us = foldl min (current_price_approx u) (map current_price_approx us)"

definition maxPrice :: "HardwareEntry \<Rightarrow> HardwareEntry list \<Rightarrow> rat" where
  "maxPrice u us = foldl max (current_price_approx u) (map current_price_approx us)"

definition pushUpgrade :: "string \<Rightarrow> HardwareEntry list \<Rightarrow> RecState \<Rightarrow> RecState" where
  "pushUpgrade i upgrades st =
     (case upgrades of
        [] \<Rightarrow> st
      | u # us \<Rightarrow>
          pushIf True (mkRecommendation i Upgrade (CostRange (minPrice u us) (maxPrice u us))) st)"

definition buildRecommendations ::
  "Catalog \<Rightarrow> Catalog \<Rightarrow> SystemScan \<Rightarrow> Bottleneck list \<Rightarrow>
   LookupValue option \<Rightarrow> LookupValue option \<Rightarrow> Recommendation list" where
  "buildRecommendations cpuDb gpuDb scan bs cpuEntry gpuEntry =
     (let st0 = ([], 1);
          st1 = pushIf (has bs ''settings-xmp-off'' \<or> hasCritical bs ''ram-slow-speed''
                        \<or> hasCritical bs ''ram-slow-speed-ddr5'')
                  (mkRecommendation ''rec-enable-xmp'' Free (CostText ''$0'')) st0;
          st2 = pushIf (has bs ''settings-power-plan'')
                  (mkRecommendation ''rec-power-plan'' Free (CostText ''$0'')) st1;
          st3 = pushIf (has bs ''settings-rebar-off'')
                  (mkRecommendation ''rec-enable-rebar'' Free (CostText ''$0'')) st2;
          st4 = pushIf (has bs ''settings-gpu-scheduling'')
                  (mkRecommendation ''rec-gpu-scheduling'' Free (CostText ''$0'')) st3;
          st5 = pushIf (has bs ''cpu-not-boosting'')
                  (mkRecommendation ''rec-check-boost'' Free (CostText ''$0'')) st4;
          st6 = pushIf (has bs ''thermal-cpu-critical'')
                  (mkRecommendation ''rec-cpu-cooling'' Cheap (CostText ''$5 - $45'')) st5;
          st7 = pushIf (has bs ''ram-single-channel'')
                  (mkRecommendation ''rec-second-ram-stick'' Cheap (CostText ''$25 - $60'')) st6;
          st8 = pushIf (has bs ''ram-low-capacity'')
                  (mkRecommendation ''rec-more-ram'' Cheap (CostText ''$35 - $50'')) st7;
          st9 = pushIf (has bs ''storage-hdd-boot'')
                  (mkRecommendation ''rec-ssd-boot'' Cheap (CostText ''$25 - $60'')) st8;
          st10 = (case cpuEntry of
                    Some ce \<Rightarrow>
                      if has bs ''cpu-high-usage'' \<or> has bs ''cpu-gpu-tier-mismatch'' then
                        pushUpgrade ''rec-cpu-upgrade'' (getUpgradesOf ce cpuDb 2) st9
                      else st9
                  | None \<Rightarrow> st9);
          st11 = (case gpuEntry of
                    Some ge \<Rightarrow>
                      if has bs ''gpu-limited'' \<or> has bs ''gpu-cpu-tier-mismatch'' then
                        pushUpgrade ''rec-gpu-upgrade'' (getUpgradesOf ge gpuDb 2) st10
                      else st10
                  | None \<Rightarrow> st10)
      in fst st11)"

section \<open>Scorer\<close>

definition tierScores :: "HardwareTier \<rightharpoonup> int" where
  "tierScores = [Very_high \<mapsto> 22, High \<mapsto> 18, Mid \<mapsto> 14, Low \<mapsto> 10, Very_low \<mapsto> 6]"

text \<open>
  Each subsystem score is a variable that the source initialises, then lowers (or, for
  settings, raises) in a fixed sequence of \<open>if\<close> blocks, then clamps. Each block is one
  definition below; a subsystem score is the initial value minus (plus) its blocks.
\<close>

text \<open>
  \<open>tierScores[x.tier] ?? 14\<close>: on an inherited member the tier is undefined, the table
  has no such key, and the default stands.
\<close>

definition tierBase :: "LookupValue option \<Rightarrow> int" where
  "tierBase entry =
     (case entry of
        None \<Rightarrow> 25
      | Some x \<Rightarrow>
          (case (case tierOf x of Some t \<Rightarrow> tierScores t | None \<Rightarrow> None) of
             Some v \<Rightarrow> v
           | None \<Rightarrow> 14))"

definition cpuThermalPenalty :: "CPUInfo \<Rightarrow> int" where
  "cpuThermalPenalty c =
     (case cpu_current_temp_c c of
        Some t \<Rightarrow> if t > 85 then 5 else if t > 75 then 2 else 0
      | None \<Rightarrow> 0)"

definition cpuBoostPenalty :: "CPUInfo \<Rightarrow> int" where
  "cpuBoostPenalty c = (if belowBoost c then 3 else 0)"

definition cpuScoreOf :: "SystemScan \<Rightarrow> LookupValue option \<Rightarrow> int" where
  "cpuScoreOf scan cpuEntry =
     clamp (tierBase cpuEntry - cpuThermalPenalty (cpu scan) - cpuBoostPenalty (cpu scan)) 0 25"

definition gpuThermalPenalty :: "GPUInfo \<Rightarrow> int" where
  "gpuThermalPenalty g =
     (case gpu_current_temp_c g of
        Some t \<Rightarrow> if t > 85 then 4 else if t > 80 then 2 else 0
      | None \<Rightarrow> 0)"

definition gpuVramPenalty :: "GPUInfo \<Rightarrow> int" where
  "gpuVramPenalty g = (if vramNearlyFull g then 3 else 0)"

definition gpuScoreOf :: "SystemScan \<Rightarrow> LookupValue option \<Rightarrow> int" where
  "gpuScoreOf scan gpuEntry =
     clamp (tierBase gpuEntry - gpuThermalPenalty (gpu scan) - gpuVramPenalty (gpu scan)) 0 25"

definition ramDDR4Penalty :: "RAMInfo \<Rightarrow> int" where
  "ramDDR4Penalty r =
     (if isDDR4 r \<and> speed_mhz r < 3000 then 8
      else if isDDR4 r \<and> speed_mhz r < 3200 then 3 else 0)"

definition ramDDR5Penalty :: "RAMInfo \<Rightarrow> int" where
  "ramDDR5Penalty r =
     (if isDDR5 r \<and> speed_mhz r < 4800 then 8
      else if isDDR5 r \<and> speed_mhz r < 5600 then 3 else 0)"

definition ramChannelPenalty :: "RAMInfo \<Rightarrow> int" where
  "ramChannelPenalty r = (if channel_mode r = Single then 10 else 0)"

definition ramCapacityPenalty :: "RAMInfo \<Rightarrow> int" where
  "ramCapacityPenalty r = (if total_gb r < 16 then 5 else if total_gb r < 32 then 1 else 0)"

definition ramUsagePenalty :: "RAMInfo \<Rightarrow> int" where
  "ramUsagePenalty r = (if usage_percent r > 85 then 3 else 0)"

definition ramScoreOf :: "SystemScan \<Rightarrow> int" where
  "ramScoreOf scan =
     clamp (20 - ramDDR4Penalty (ram scan) - ramDDR5Penalty (ram scan)
               - ramChannelPenalty (ram scan) - ramCapacityPenalty (ram scan)
               - ramUsagePenalty (ram scan)) 0 20"

definition storageBase :: "StorageInfo \<Rightarrow> int" where
  "storageBase d =
     (if drive_type d = NVMe_SSD then 15
      else if drive_type d = SATA_SSD then 10
      else if drive_type d = HDD then 5
      else 8)"

definition storageSpacePenalty :: "StorageInfo \<Rightarrow> int" where
  "storageSpacePenalty d =
     (if capacity_gb d > 0 then
        (let usagePct = used_gb d / capacity_gb d in
         if usagePct > 9 / 10 then 3 else if usagePct > 8 / 10 then 1 else 0)
      else 0)"

definition storageHealthPenalty :: "StorageInfo \<Rightarrow> int" where
  "storageHealthPenalty d = (if unhealthy d then 5 else 0)"

definition storageScoreOf :: "SystemScan \<Rightarrow> int" where
  "storageScoreOf scan =
     clamp
       (case find is_boot_drive (storage scan) of
          Some d \<Rightarrow> storageBase d - storageSpacePenalty d - storageHealthPenalty d
        | None \<Rightarrow> 15)
       0 15"

definition powerPlanPoints :: "OSInfo \<Rightarrow> int" where
  "powerPlanPoints o' =
     (let plan = toLowerCase (power_plan o') in
      if str_includes plan ''ultimate'' then 3
      else if str_includes plan ''high performance'' then 3
      else if str_includes plan ''balanced'' then 1
      else 0)"

definition xmpPoints :: "BIOSSettings \<Rightarrow> int" where
  "xmpPoints b =
     (if xmp_enabled b = Some True then 5 else if xmp_enabled b = None then 2 else 0)"

definition driverPoints :: "GPUInfo \<Rightarrow> int" where
  "driverPoints g = (if driver_version g \<noteq> [] \<and> length (driver_version g) > 0 then 2 else 0)"

definition rebarPoints :: "BIOSSettings \<Rightarrow> int" where
  "rebarPoints b = (if resizable_bar b = Some True then 2 else 0)"

definition gameModePoints :: "OSInfo \<Rightarrow> int" where
  "gameModePoints o' = (if game_mode o' = Some True then 1 else 0)"

definition gpuSchedulingPoints :: "OSInfo \<Rightarrow> int" where
  "gpuSchedulingPoints o' = (if hw_accelerated_gpu_scheduling o' = Some True then 2 else 0)"

definition settingsScoreOf :: "SystemScan \<Rightarrow> int" where
  "settingsScoreOf scan =
     clamp (0 + powerPlanPoints (os scan) + xmpPoints (bios_settings scan)
              + driverPoints (gpu scan) + rebarPoints (bios_settings scan)
              + gameModePoints (os scan) + gpuSchedulingPoints (os scan)) 0 15"

definition getGrade :: "int \<Rightarrow> string \<times> string" where
  "getGrade t =
     (if t \<ge> 90 then (''A'', ''Your system is optimized. Nice work.'')
      else if t \<ge> 80 then
        (''A-'', ''Great setup. A few tweaks could squeeze out more performance.'')
      else if t \<ge> 70 then (''B'', ''Good, but you're leaving performance on the table.'')
      else if t \<ge> 60 then (''C'', ''Several bottlenecks detected. Easy fixes available.'')
      else (''D'', ''Significant issues found. Major free performance gains possible.''))"

definition calculateScore ::
  "SystemScan \<Rightarrow> Bottleneck list \<Rightarrow> LookupValue option \<Rightarrow> LookupValue option \<Rightarrow>
   PerformanceScore" where
  "calculateScore scan bs cpuEntry gpuEntry =
     (let cpuScore = cpuScoreOf scan cpuEntry;
          gpuScore = gpuScoreOf scan gpuEntry;
          ramScore = ramScoreOf scan;
          storageScore = storageScoreOf scan;
          settingsScore = settingsScoreOf scan;
          t = cpuScore + gpuScore + ramScore + storageScore + settingsScore
      in \<lparr>total = t, grade = fst (getGrade t), grade_description = snd (getGrade t),
          breakdown = \<lparr>cpu_score = cpuScore, gpu_score = gpuScore, ram_score = ramScore,
                       storage_score = storageScore, settings_score = settingsScore\<rparr>\<rparr>)"

section \<open>Entry point\<close>

definition severityOrder :: "Severity \<Rightarrow> int" where
  "severityOrder s = (case s of Critical \<Rightarrow> 0 | Warning \<Rightarrow> 1 | Info \<Rightarrow> 2 | Good \<Rightarrow> 3)"

definition tierOrder :: "RecTier \<Rightarrow> int" where
  "tierOrder t = (case t of Free \<Rightarrow> 0 | Cheap \<Rightarrow> 1 | Upgrade \<Rightarrow> 2)"

definition compareSeverity :: "Bottleneck \<Rightarrow> Bottleneck \<Rightarrow> int" where
  "compareSeverity a b = severityOrder (severity a) - severityOrder (severity b)"

definition compareRecommendation :: "Recommendation \<Rightarrow> Recommendation \<Rightarrow> int" where
  "compareRecommendation a b =
     (let tierDiff = tierOrder (rec_tier a) - tierOrder (rec_tier b) in
      if tierDiff \<noteq> 0 then tierDiff else priority a - priority b)"

text \<open>
  \<open>detectAll\<close> is the findings array after the six evaluators have run, before it is
  sorted. \<open>analyzeScanWith\<close> is \<open>analyzeScan\<close> with the two tables as parameters.
\<close>

definition detectAll ::
  "SystemScan \<Rightarrow> LookupValue option \<Rightarrow> LookupValue option \<Rightarrow> Bottleneck list" where
  "detectAll scan cpuEntry gpuEntry =
     detectCPUBottlenecks scan cpuEntry gpuEntry
     @ detectGPUBottlenecks scan cpuEntry gpuEntry
     @ detectRAMBottlenecks scan
     @ detectStorageBottlenecks scan
     @ detectThermalBottlenecks scan
     @ detectSettingsBottlenecks scan"

definition analyzeScanWith :: "Catalog \<Rightarrow> Catalog \<Rightarrow> SystemScan \<Rightarrow> AnalysisResult" where
  "analyzeScanWith cpuDb gpuDb scan =
     (let cpuEntry = lookupEntry cpuDb (cpu_model_name (cpu scan));
          gpuEntry = lookupEntry gpuDb (gpu_model_name (gpu scan));
          found = detectAll scan cpuEntry gpuEntry;
          recs = buildRecommendations cpuDb gpuDb scan found cpuEntry gpuEntry;
          sortedBottlenecks = sortBy compareSeverity found;
          sortedRecs = sortBy compareRecommendation recs;
          sc = calculateScore scan sortedBottlenecks cpuEntry gpuEntry
      in \<lparr>score = sc, bottlenecks = sortedBottlenecks, recommendations = sortedRecs\<rparr>)"

definition analyzeScan :: "SystemScan \<Rightarrow> AnalysisResult" where
  "analyzeScan scan = analyzeScanWith cpuDatabase gpuDatabase scan"

section \<open>The demo scan (data/sample-scan.ts)\<close>

definition sampleScan :: SystemScan where
  "sampleScan =
     \<lparr>cpu = \<lparr>cpu_model_name = ''AMD Ryzen 7 5800X'', max_boost_clock_ghz = 47 / 10,
              current_clock_ghz = 445 / 100, cpu_current_temp_c = Some 62,
              usage_per_core = [45, 52, 38, 61, 55, 42, 48, 50, 30, 35, 28, 40, 33, 29, 31, 36]\<rparr>,
      gpu = \<lparr>gpu_model_name = ''NVIDIA GeForce RTX 4070 Ti'', vram_total_gb = 12,
              vram_used_gb = 78 / 10, gpu_current_temp_c = Some 68,
              driver_version = ''566.14'', gpu_utilization_pct = 88\<rparr>,
      ram = \<lparr>total_gb = 32, speed_mhz = 2133, channel_mode = Dual,
              form_factor = ''DIMM DDR4'', usage_percent = 44\<rparr>,
      storage =
        [\<lparr>model = ''Samsung 980 Pro 1TB'', drive_type = NVMe_SSD, capacity_gb = 953,
           used_gb = 612, health_status = Some ''Good'', is_boot_drive = True\<rparr>,
         \<lparr>model = ''Seagate Barracuda 2TB'', drive_type = HDD, capacity_gb = 1863,
           used_gb = 1240, health_status = Some ''Good'', is_boot_drive = False\<rparr>],
      os = \<lparr>power_plan = ''Balanced'', game_mode = Some True,
             hw_accelerated_gpu_scheduling = Some False\<rparr>,
      bios_settings = \<lparr>xmp_enabled = Some False, resizable_bar = Some False\<rparr>\<rparr>"

section \<open>Example scans\<close>

text \<open>The demo scan with a CPU and a GPU that neither table knows.\<close>

definition unknownHardwareScan :: SystemScan where
  "unknownHardwareScan =
     sampleScan
       \<lparr>cpu := (cpu sampleScan)\<lparr>cpu_model_name := ''Acme X1''\<rparr>,
        gpu := (gpu sampleScan)\<lparr>gpu_model_name := ''Acme G1''\<rparr>\<rparr>"

text \<open>The demo scan with one 16 GB DDR4 stick at the JEDEC speed.\<close>

definition singleChannelScan :: SystemScan where
  "singleChannelScan =
     sampleScan
       \<lparr>ram := \<lparr>total_gb = 16, speed_mhz = 2133, channel_mode = Single,
                 form_factor = ''DIMM DDR4'', usage_percent = 40\<rparr>\<rparr>"

text \<open>
  The demo scan with a GPU that reports no VRAM total and a boot drive that reports no
  capacity.
\<close>

definition flashDisk :: StorageInfo where
  "flashDisk =
     \<lparr>model = ''Generic Flash Disk'', drive_type = SATA_SSD, capacity_gb = 0, used_gb = 5,
      health_status = None, is_boot_drive = True\<rparr>"

definition zeroDenominatorScan :: SystemScan where
  "zeroDenominatorScan =
     sampleScan\<lparr>gpu := (gpu sampleScan)\<lparr>vram_total_gb := 0\<rparr>, storage := [flashDisk]\<rparr>"

text \<open>The demo scan with every core at 95 percent and the GPU at 40 percent.\<close>

definition cpuBoundScan :: SystemScan where
  "cpuBoundScan =
     sampleScan
       \<lparr>cpu := (cpu sampleScan)\<lparr>usage_per_core := [95, 95, 95, 95, 95, 95, 95, 95]\<rparr>,
        gpu := (gpu sampleScan)\<lparr>gpu_utilization_pct := 40\<rparr>\<rparr>"

text \<open>
  The demo scan with three drives, of which the second and the third carry the boot
  flag: a nearly full hard disk, then an NVMe drive that reports a bad health status.
\<close>

definition bootHdd :: StorageInfo where
  "bootHdd =
     \<lparr>model = ''WD Blue 1TB'', drive_type = HDD, capacity_gb = 1000, used_gb = 950,
      health_status = Some ''OK'', is_boot_drive = True\<rparr>"

definition bootNvme :: StorageInfo where
  "bootNvme =
     \<lparr>model = ''Samsung 980 Pro 1TB'', drive_type = NVMe_SSD, capacity_gb = 953,
      used_gb = 100, health_status = Some ''Caution'', is_boot_drive = True\<rparr>"

definition dataSsd :: StorageInfo where
  "dataSsd =
     \<lparr>model = ''Crucial MX500'', drive_type = SATA_SSD, capacity_gb = 500, used_gb = 100,
      health_status = None, is_boot_drive = False\<rparr>"

definition twoBootDrivesScan :: SystemScan where
  "twoBootDrivesScan = sampleScan\<lparr>storage := [dataSsd, bootHdd, bootNvme]\<rparr>"

section \<open>The catalog lookup as the specification words it\<close>

text \<open>
  Normalise the name; if the key is present in the catalog, the result is its entry;
  otherwise it is the entry of the first pair, in catalog order, whose key is a substring
  of the normalised name or has the normalised name as a substring; otherwise none.
\<close>

definition lookup_spec :: "Catalog \<Rightarrow> string \<Rightarrow> HardwareEntry option" where
  "lookup_spec db modelName =
     (let key = trim (toLowerCase modelName) in
      if key \<in> fst ` set db then map_of db key
      else map_option snd
             (find (\<lambda>(dbKey, entry). str_includes key dbKey \<or> str_includes dbKey key) db))"

section \<open>The value ratio as the specification words it\<close>

text \<open>\<open>gaming_score / max(current_price, 1)\<close>.\<close>

definition valueRatio_spec :: "HardwareEntry \<Rightarrow> rat" where
  "valueRatio_spec e = gaming_score e / max (current_price_approx e) 1"

text \<open>
  A current part of tier low, and a two-entry table of tier-high parts, one of which
  carries a negative price.
\<close>

definition lowPart :: HardwareEntry where
  "lowPart = mkEntry ''Low Part'' Low 30 2020 100 100"

definition refundPart :: HardwareEntry where
  "refundPart = mkEntry ''Refund Part'' High 50 2024 10 (-10)"

definition dollarPart :: HardwareEntry where
  "dollarPart = mkEntry ''Dollar Part'' High 40 2024 1 1"

definition refundCatalog :: Catalog where
  "refundCatalog = [(''refund part'', refundPart), (''dollar part'', dollarPart)]"

section \<open>Properties\<close>

subsection \<open>Sorting and clamping\<close>

lemma insertBy_insort_key:
  assumes "\<And>a b. (cmp a b \<le> 0) = (key a \<le> key b)"
  shows "insertBy cmp x xs = insort_key key x xs"
  by (induction xs) (simp_all add: assms)

lemma sortBy_sort_key:
  assumes "\<And>a b. (cmp a b \<le> 0) = (key a \<le> key b)"
  shows "sortBy cmp xs = sort_key key xs"
proof -
  have "insertBy cmp = insort_key key"
    by (intro ext) (rule insertBy_insort_key [OF assms])
  then show ?thesis
    by (simp add: sortBy_def sort_key_def)
qed

lemma set_insertBy: "set (insertBy cmp x xs) = insert x (set xs)"
  by (induction xs) auto

lemma set_sortBy: "set (sortBy cmp xs) = set xs"
  by (induction xs) (simp_all add: sortBy_def set_insertBy)

lemma clamp_range: "lo \<le> hi \<Longrightarrow> lo \<le> clamp v lo hi \<and> clamp v lo hi \<le> hi"
  by (simp add: clamp_def)

lemma score_analyzeScanWith:
  "score (analyzeScanWith cpuDb gpuDb scan) =
     calculateScore scan (bottlenecks (analyzeScanWith cpuDb gpuDb scan))
       (lookupEntry cpuDb (cpu_model_name (cpu scan)))
       (lookupEntry gpuDb (gpu_model_name (gpu scan)))"
  by (simp add: analyzeScanWith_def Let_def)

lemma breakdown_calculateScore:
  "breakdown (calculateScore scan bs ce ge) =
     \<lparr>cpu_score = cpuScoreOf scan ce, gpu_score = gpuScoreOf scan ge,
      ram_score = ramScoreOf scan, storage_score = storageScoreOf scan,
      settings_score = settingsScoreOf scan\<rparr>"
  by (simp add: calculateScore_def Let_def)

lemma total_calculateScore:
  "total (calculateScore scan bs ce ge) =
     cpuScoreOf scan ce + gpuScoreOf scan ge + ramScoreOf scan + storageScoreOf scan
       + settingsScoreOf scan"
  by (simp add: calculateScore_def Let_def)

text \<open>
  Claim C2. For every scan and every pair of catalogs, each value of the score breakdown
  lies in its declared range (cpu and gpu in 0..25, ram in 0..20, storage and settings in
  0..15), the total is the sum of the five breakdown values, and the total lies in
  0..100.
\<close>

theorem C2_score_breakdown_in_range:
  fixes cpuDb gpuDb :: Catalog and scan :: SystemScan
  defines "s \<equiv> score (analyzeScanWith cpuDb gpuDb scan)"
  shows "0 \<le> cpu_score (breakdown s) \<and> cpu_score (breakdown s) \<le> 25
       \<and> 0 \<le> gpu_score (breakdown s) \<and> gpu_score (breakdown s) \<le> 25
       \<and> 0 \<le> ram_score (breakdown s) \<and> ram_score (breakdown s) \<le> 20
       \<and> 0 \<le> storage_score (breakdown s) \<and> storage_score (breakdown s) \<le> 15
       \<and> 0 \<le> settings_score (breakdown s) \<and> settings_score (breakdown s) \<le> 15
       \<and> total s = cpu_score (breakdown s) + gpu_score (breakdown s) + ram_score (breakdown s)
                    + storage_score (breakdown s) + settings_score (breakdown s)
       \<and> 0 \<le> total s \<and> total s \<le> 100"
proof -
  let ?ce = "lookupEntry cpuDb (cpu_model_name (cpu scan))"
  let ?ge = "lookupEntry gpuDb (gpu_model_name (gpu scan))"
  have c: "0 \<le> cpuScoreOf scan ?ce \<and> cpuScoreOf scan ?ce \<le> 25"
    unfolding cpuScoreOf_def by (rule clamp_range) simp
  have g: "0 \<le> gpuScoreOf scan ?ge \<and> gpuScoreOf scan ?ge \<le> 25"
    unfolding gpuScoreOf_def by (rule clamp_range) simp
  have r: "0 \<le> ramScoreOf scan \<and> ramScoreOf scan \<le> 20"
    unfolding ramScoreOf_def by (rule clamp_range) simp
  have st: "0 \<le> storageScoreOf scan \<and> storageScoreOf scan \<le> 15"
    unfolding storageScoreOf_def by (rule clamp_range) simp
  have se: "0 \<le> settingsScoreOf scan \<and> settingsScoreOf scan \<le> 15"
    unfolding settingsScoreOf_def by (rule clamp_range) simp
  show ?thesis
    unfolding s_def score_analyzeScanWith breakdown_calculateScore total_calculateScore
    using c g r st se by simp
qed




lemma bottlenecks_analyzeScanWith:
  "bottlenecks (analyzeScanWith cpuDb gpuDb scan) =
     sortBy compareSeverity
       (detectAll scan (lookupEntry cpuDb (cpu_model_name (cpu scan)))
          (lookupEntry gpuDb (gpu_model_name (gpu scan))))"
  by (simp add: analyzeScanWith_def Let_def)

lemma recommendations_analyzeScanWith:
  "recommendations (analyzeScanWith cpuDb gpuDb scan) =
     sortBy compareRecommendation
       (buildRecommendations cpuDb gpuDb scan
          (detectAll scan (lookupEntry cpuDb (cpu_model_name (cpu scan)))
             (lookupEntry gpuDb (gpu_model_name (gpu scan))))
          (lookupEntry cpuDb (cpu_model_name (cpu scan)))
          (lookupEntry gpuDb (gpu_model_name (gpu scan))))"
  by (simp add: analyzeScanWith_def Let_def)





subsection \<open>Scores of hardware that the catalog does not know\<close>

lemma tierScores_total:
  "tierScores t =
     Some (case t of Very_high \<Rightarrow> 22 | High \<Rightarrow> 18 | Mid \<Rightarrow> 14 | Low \<Rightarrow> 10 | Very_low \<Rightarrow> 6)"
  by (cases t) (simp_all add: tierScores_def)

lemma cpu_score_analyzeScanWith:
  "cpu_score (breakdown (score (analyzeScanWith cpuDb gpuDb scan))) =
     cpuScoreOf scan (lookupEntry cpuDb (cpu_model_name (cpu scan)))"
  by (simp add: score_analyzeScanWith breakdown_calculateScore)

lemma gpu_score_analyzeScanWith:
  "gpu_score (breakdown (score (analyzeScanWith cpuDb gpuDb scan))) =
     gpuScoreOf scan (lookupEntry gpuDb (gpu_model_name (gpu scan)))"
  by (simp add: score_analyzeScanWith breakdown_calculateScore)

text \<open>
  Claim C1, amended. For every scan whose CPU (resp. GPU) model name has no catalog
  entry, the analysis returns a result whose CPU (resp. GPU) subsystem score is computed
  from the initial value 25 out of 25: 25 minus the thermal deduction and the boost-clock
  (resp. VRAM) deduction, clamped to 0..25. The default 14 stands only behind a value
  that the lookup returned and whose tier the score table lacks; the table has all five
  tiers (\<open>tierScores_total\<close>), so it stands behind no catalog entry.
\<close>

theorem C1_unknown_model_scores_from_25:
  "(lookupEntry cpuDb (cpu_model_name (cpu scan)) = None \<longrightarrow>
      cpu_score (breakdown (score (analyzeScanWith cpuDb gpuDb scan))) =
        clamp (25 - cpuThermalPenalty (cpu scan) - cpuBoostPenalty (cpu scan)) 0 25)
   \<and> (lookupEntry gpuDb (gpu_model_name (gpu scan)) = None \<longrightarrow>
      gpu_score (breakdown (score (analyzeScanWith cpuDb gpuDb scan))) =
        clamp (25 - gpuThermalPenalty (gpu scan) - gpuVramPenalty (gpu scan)) 0 25)"
  by (simp add: cpu_score_analyzeScanWith gpu_score_analyzeScanWith cpuScoreOf_def
      gpuScoreOf_def tierBase_def)

subsection \<open>Single-channel DDR4 at the JEDEC speed\<close>

lemma startsWith_map: "startsWith s p \<Longrightarrow> startsWith (map f s) (map f p)"
  by (induction s p rule: startsWith.induct) simp_all

lemma str_includes_map: "str_includes s sub \<Longrightarrow> str_includes (map f s) (map f sub)"
proof (induction s)
  case Nil
  then show ?case by simp
next
  case (Cons c cs)
  then show ?case
    using startsWith_map [of "c # cs" sub f] by auto
qed

lemma toLowerCase_DDR4: "toLowerCase ''DDR4'' = ''ddr4''"
  by code_simp

lemma contains_DDR4_isDDR4: "str_includes (form_factor r) ''DDR4'' \<Longrightarrow> isDDR4 r"
  unfolding isDDR4_def toLowerCase_def
  using str_includes_map [of "form_factor r" "''DDR4''" toLowerChar] toLowerCase_DDR4
  by (simp add: toLowerCase_def)

lemma ram_score_analyzeScanWith:
  "ram_score (breakdown (score (analyzeScanWith cpuDb gpuDb scan))) = ramScoreOf scan"
  by (simp add: score_analyzeScanWith breakdown_calculateScore)

lemma set_bottlenecks_analyzeScanWith:
  "set (bottlenecks (analyzeScanWith cpuDb gpuDb scan)) =
     set (detectAll scan (lookupEntry cpuDb (cpu_model_name (cpu scan)))
            (lookupEntry gpuDb (gpu_model_name (gpu scan))))"
  by (simp add: bottlenecks_analyzeScanWith set_sortBy)

text \<open>
  Claim C4, amended. For every scan whose RAM section has channel mode single, a form
  factor containing \<open>DDR4\<close>, speed 2133, total 16 GB and usage 40 percent, the result
  contains the critical finding \<open>ram-single-channel\<close> and the critical finding
  \<open>ram-slow-speed\<close>, and the RAM subsystem score is at most 2, in fact at most 1:
  the capacity step deducts 1, because 16 GB is below its 32 GB band, and the usage step
  deducts nothing. (The score is exactly 1, or 0 when the form factor also contains
  \<open>ddr5\<close>.)
\<close>

theorem C4_single_channel_jedec_ddr4:
  assumes "channel_mode (ram scan) = Single"
    and "str_includes (form_factor (ram scan)) ''DDR4''"
    and "speed_mhz (ram scan) = 2133"
    and "total_gb (ram scan) = 16"
    and "usage_percent (ram scan) = 40"
  shows "mkBottleneck ''ram-single-channel'' Cat_ram Critical Medium ''$25 - $60''
           \<in> set (bottlenecks (analyzeScanWith cpuDb gpuDb scan))
       \<and> mkBottleneck ''ram-slow-speed'' Cat_ram Critical Easy ''$0''
           \<in> set (bottlenecks (analyzeScanWith cpuDb gpuDb scan))
       \<and> ramCapacityPenalty (ram scan) = 1
       \<and> ramUsagePenalty (ram scan) = 0
       \<and> ram_score (breakdown (score (analyzeScanWith cpuDb gpuDb scan))) =
           (if isDDR5 (ram scan) then 0 else 1)
       \<and> ram_score (breakdown (score (analyzeScanWith cpuDb gpuDb scan))) \<le> 1"
proof -
  have d4: "isDDR4 (ram scan)"
    using assms(2) by (rule contains_DDR4_isDDR4)
  have f1: "mkBottleneck ''ram-single-channel'' Cat_ram Critical Medium ''$25 - $60''
              \<in> set (detectRAMBottlenecks scan)"
    using assms(1) by (simp add: detectRAMBottlenecks_def)
  have f2: "mkBottleneck ''ram-slow-speed'' Cat_ram Critical Easy ''$0''
              \<in> set (detectRAMBottlenecks scan)"
    using d4 assms(3) by (simp add: detectRAMBottlenecks_def)
  have cap: "ramCapacityPenalty (ram scan) = 1"
    using assms(4) by (simp add: ramCapacityPenalty_def)
  have use: "ramUsagePenalty (ram scan) = 0"
    using assms(5) by (simp add: ramUsagePenalty_def)
  have sc: "ramScoreOf scan = (if isDDR5 (ram scan) then 0 else 1)"
    using d4 assms(1,3) cap use
    by (simp add: ramScoreOf_def ramDDR4Penalty_def ramDDR5Penalty_def ramChannelPenalty_def
        clamp_def)
  show ?thesis
    using f1 f2 cap use sc
    by (simp add: set_bottlenecks_analyzeScanWith detectAll_def ram_score_analyzeScanWith)
qed

subsection \<open>Catalog lookup\<close>

lemma find_substringMatch:
  "substringMatch key db =
     map_option (\<lambda>p. Entry (snd p))
       (find (\<lambda>(dbKey, entry). str_includes key dbKey \<or> str_includes dbKey key) db)"
  by (induction db) (simp_all split: prod.splits)

lemma tierIndexOf_Entry: "tierIndexOf (Entry e) = tierIndex (tier e)"
  by (cases "tier e") (simp_all add: tierIndexOf_def tierOf_def tierIndex_def TIER_ORDER_def)

lemma tierIndexOf_Inherited: "tierIndexOf (Inherited m) = -1"
  by (simp add: tierIndexOf_def tierOf_def TIER_ORDER_def)

lemma getUpgradesOf_Entry: "getUpgradesOf (Entry e) db n = getUpgrades e db n"
  by (simp add: getUpgradesOf_def getUpgrades_def tierIndexOf_Entry)

lemma tierBase_Inherited: "tierBase (Some (Inherited m)) = 14"
  by (simp add: tierBase_def tierOf_def)

text \<open>
  On every model name whose normalised key is a key of the table, or is not the name of
  a member that objects inherit, the lookup returns what the specification says: the
  entry of the key if the key is present, otherwise the entry of the first pair in table
  order whose key is a substring of the normalised name or contains it, otherwise none.
\<close>

lemma lookupEntry_lookup_spec:
  assumes "trim (toLowerCase modelName) \<in> fst ` set db
           \<or> \<not> List.member objectPrototypeMembers (trim (toLowerCase modelName))"
  shows "lookupEntry db modelName = map_option Entry (lookup_spec db modelName)"
proof (cases "map_of db (trim (toLowerCase modelName))")
  case None
  then have absent: "trim (toLowerCase modelName) \<notin> fst ` set db"
    by (simp add: map_of_eq_None_iff)
  with assms have "\<not> List.member objectPrototypeMembers (trim (toLowerCase modelName))"
    by simp
  with None absent show ?thesis
    by (simp add: lookupEntry_def propertyRead_def lookup_spec_def Let_def find_substringMatch
        option.map_comp comp_def)
next
  case (Some e)
  then have "trim (toLowerCase modelName) \<in> fst ` set db"
    by (metis map_of_eq_None_iff option.distinct(1))
  with Some show ?thesis
    by (simp add: lookupEntry_def propertyRead_def lookup_spec_def Let_def)
qed

subsection \<open>Upgrade candidates\<close>

lemma tierIndex_cases:
  "tierIndex t = (case t of Very_low \<Rightarrow> 0 | Low \<Rightarrow> 1 | Mid \<Rightarrow> 2 | High \<Rightarrow> 3 | Very_high \<Rightarrow> 4)"
  by (cases t) (simp_all add: tierIndex_def TIER_ORDER_def)

lemma valueRatio_cmp_key:
  "(valueRatio b - valueRatio a \<le> 0) = (- valueRatio a \<le> - valueRatio b)"
  by simp

lemma sortBy_valueRatio:
  "sortBy (\<lambda>a b. valueRatio b - valueRatio a) es = sort_key (\<lambda>e. - valueRatio e) es"
  by (rule sortBy_sort_key) (rule valueRatio_cmp_key)

lemma sortBy_valueRatio_descending:
  "sorted_wrt (\<lambda>a b. valueRatio a \<ge> valueRatio b) (sortBy (\<lambda>a b. valueRatio b - valueRatio a) es)"
proof -
  have "sorted (map (\<lambda>e. - valueRatio e) (sort_key (\<lambda>e. - valueRatio e) es))"
    by simp
  then show ?thesis
    by (simp add: sortBy_valueRatio sorted_map)
qed

text \<open>On a price that is zero or at least 1 the two denominators agree.\<close>

lemma valueRatio_spec_agrees:
  "current_price_approx e = 0 \<or> 1 \<le> current_price_approx e \<Longrightarrow>
     valueRatio e = valueRatio_spec e"
  by (auto simp: valueRatio_def valueRatio_spec_def priceOr1_def max_def)

lemma set_slice0: "set (slice0 xs n) \<subseteq> set xs"
  by (auto simp: slice0_def dest: in_set_takeD)

lemma sorted_wrt_slice0: "sorted_wrt R xs \<Longrightarrow> sorted_wrt R (slice0 xs n)"
  by (simp add: slice0_def)

lemma length_slice0: "0 \<le> n \<Longrightarrow> length (slice0 xs n) \<le> nat n"
  by (simp add: slice0_def)

text \<open>
  Claim C6, amended. For every current entry, catalog and integer \<open>maxResults\<close>,
  \<open>getUpgrades\<close> returns only catalog entries whose tier rank is strictly greater
  than the current entry's; at most \<open>maxResults\<close> of them when \<open>maxResults\<close> is not
  negative; ordered by descending value ratio \<open>gaming_score / p\<close>, where \<open>p\<close> is the
  current price, or 1 when the current price is zero; and the result is empty when no
  entry has a strictly higher tier.
\<close>

theorem C6_getUpgrades:
  "(\<forall>e \<in> set (getUpgrades current db n).
       tierIndex (tier e) > tierIndex (tier current) \<and> e \<in> snd ` set db)
   \<and> (0 \<le> n \<longrightarrow> length (getUpgrades current db n) \<le> nat n)
   \<and> sorted_wrt (\<lambda>a b. valueRatio a \<ge> valueRatio b) (getUpgrades current db n)
   \<and> ((\<forall>e \<in> snd ` set db. \<not> tierIndex (tier e) > tierIndex (tier current)) \<longrightarrow>
        getUpgrades current db n = [])"
proof -
  let ?higher = "\<lambda>entry. tierIndex (tier entry) > tierIndex (tier current)"
  let ?ranked = "sortBy (\<lambda>a b. valueRatio b - valueRatio a) (filter ?higher (map snd db))"
  have r: "getUpgrades current db n = slice0 ?ranked n"
    by (simp add: getUpgrades_def upgradesAbove_def Let_def)
  have a: "\<forall>e \<in> set (slice0 ?ranked n). ?higher e \<and> e \<in> snd ` set db"
    using set_slice0 [of ?ranked n] by (auto simp: set_sortBy)
  have b: "0 \<le> n \<longrightarrow> length (slice0 ?ranked n) \<le> nat n"
    by (simp add: length_slice0)
  have c: "sorted_wrt (\<lambda>a b. valueRatio a \<ge> valueRatio b) (slice0 ?ranked n)"
    by (intro sorted_wrt_slice0 sortBy_valueRatio_descending)
  have d: "(\<forall>e \<in> snd ` set db. \<not> ?higher e) \<longrightarrow> slice0 ?ranked n = []"
  proof
    assume "\<forall>e \<in> snd ` set db. \<not> ?higher e"
    then have "filter ?higher (map snd db) = []"
      by (auto simp: filter_empty_conv)
    then show "slice0 ?ranked n = []"
      by (simp add: sortBy_def slice0_def)
  qed
  show ?thesis
    unfolding r using a b c d by blast
qed

subsection \<open>The identifiers each evaluator can emit\<close>

lemma ids_detectCPUBottlenecks:
  "b_id ` set (detectCPUBottlenecks scan ce ge) \<subseteq>
     {''cpu-high-usage'', ''cpu-moderate-usage'', ''cpu-gpu-tier-mismatch'', ''cpu-not-boosting''}"
  by (auto simp: detectCPUBottlenecks_def Let_def split: option.splits if_splits)

lemma ids_detectGPUBottlenecks:
  "b_id ` set (detectGPUBottlenecks scan ce ge) \<subseteq>
     {''gpu-limited'', ''gpu-vram-full'', ''gpu-cpu-tier-mismatch''}"
  by (auto simp: detectGPUBottlenecks_def Let_def split: option.splits if_splits)

lemma vram_finding_iff:
  "''gpu-vram-full'' \<in> b_id ` set (detectGPUBottlenecks scan ce ge) \<longleftrightarrow> vramNearlyFull (gpu scan)"
  by (auto simp: detectGPUBottlenecks_def Let_def split: option.splits if_splits)

lemma ids_detectRAMBottlenecks:
  "b_id ` set (detectRAMBottlenecks scan) \<subseteq>
     {''ram-single-channel'', ''ram-low-capacity'', ''ram-high-usage'', ''ram-slow-speed'',
      ''ram-slow-speed-ddr5''}"
  by (auto simp: detectRAMBottlenecks_def split: if_splits)

lemma set_healthFindings:
  "set (healthFindings drives) = healthFinding ` {d \<in> set drives. unhealthy d}"
  by (induction drives) auto

lemma id_healthFinding:
  "b_id (healthFinding d) = ''storage-health-'' @ toLowerCase (replaceWhitespace (model d))"
  by (simp add: healthFinding_def)

lemma ids_bootSpaceFindings:
  "b_id ` set (bootSpaceFindings bd) \<subseteq> {''storage-boot-almost-full'', ''storage-boot-getting-full''}"
  by (auto simp: bootSpaceFindings_def Let_def split: option.splits if_splits)

lemma ids_hddBootFindings: "b_id ` set (hddBootFindings bd) \<subseteq> {''storage-hdd-boot''}"
  by (auto simp: hddBootFindings_def split: option.splits if_splits)

lemma ids_noNVMeFindings: "b_id ` set (noNVMeFindings ds) \<subseteq> {''storage-no-nvme''}"
  by (auto simp: noNVMeFindings_def Let_def split: if_splits)

lemma ids_healthFindings:
  "i \<in> b_id ` set (healthFindings ds) \<Longrightarrow> \<exists>m. i = ''storage-health-'' @ m"
  by (auto simp: set_healthFindings id_healthFinding)

lemma ids_detectThermalBottlenecks:
  "b_id ` set (detectThermalBottlenecks scan) \<subseteq>
     {''thermal-cpu-critical'', ''thermal-cpu-warm'', ''thermal-gpu-hot'', ''thermal-gpu-warm''}"
  by (auto simp: detectThermalBottlenecks_def Let_def split: option.splits if_splits)

lemma ids_detectSettingsBottlenecks:
  "b_id ` set (detectSettingsBottlenecks scan) \<subseteq>
     {''settings-power-plan'', ''settings-xmp-off'', ''settings-rebar-off'',
      ''settings-gpu-scheduling'', ''settings-game-mode-off''}"
  by (auto simp: detectSettingsBottlenecks_def Let_def split: if_splits)

lemma xmp_finding_iff:
  "''settings-xmp-off'' \<in> b_id ` set (detectSettingsBottlenecks scan)
     \<longleftrightarrow> xmp_enabled (bios_settings scan) = Some False"
  by (auto simp: detectSettingsBottlenecks_def Let_def split: if_splits)

subsection \<open>Zero denominators\<close>

lemma not_in_ids: "S \<subseteq> T \<Longrightarrow> i \<notin> T \<Longrightarrow> i \<notin> S"
  by auto

lemma ids_detectStorageBottlenecks:
  "b_id ` set (detectStorageBottlenecks scan) =
     b_id ` set (hddBootFindings (find is_boot_drive (storage scan)))
     \<union> b_id ` set (bootSpaceFindings (find is_boot_drive (storage scan)))
     \<union> b_id ` set (noNVMeFindings (storage scan))
     \<union> b_id ` set (healthFindings (storage scan))"
  by (auto simp: detectStorageBottlenecks_def Let_def)

lemma ids_analyzeScanWith:
  "b_id ` set (bottlenecks (analyzeScanWith cpuDb gpuDb scan)) =
     b_id ` set (detectCPUBottlenecks scan (lookupEntry cpuDb (cpu_model_name (cpu scan)))
                   (lookupEntry gpuDb (gpu_model_name (gpu scan))))
     \<union> b_id ` set (detectGPUBottlenecks scan (lookupEntry cpuDb (cpu_model_name (cpu scan)))
                   (lookupEntry gpuDb (gpu_model_name (gpu scan))))
     \<union> b_id ` set (detectRAMBottlenecks scan)
     \<union> b_id ` set (detectStorageBottlenecks scan)
     \<union> b_id ` set (detectThermalBottlenecks scan)
     \<union> b_id ` set (detectSettingsBottlenecks scan)"
  by (auto simp: set_bottlenecks_analyzeScanWith detectAll_def)

lemma health_id_not_fixed:
  "''storage-boot-almost-full'' \<notin> b_id ` set (healthFindings ds)"
  "''storage-boot-getting-full'' \<notin> b_id ` set (healthFindings ds)"
  "''storage-hdd-boot'' \<notin> b_id ` set (healthFindings ds)"
  "''gpu-vram-full'' \<notin> b_id ` set (healthFindings ds)"
  "''settings-xmp-off'' \<notin> b_id ` set (healthFindings ds)"
  by (auto dest!: ids_healthFindings)

lemma vram_finding_analyzeScanWith:
  "''gpu-vram-full'' \<in> b_id ` set (bottlenecks (analyzeScanWith cpuDb gpuDb scan))
     \<longleftrightarrow> vramNearlyFull (gpu scan)"
proof -
  have "''gpu-vram-full'' \<notin> b_id ` set (detectCPUBottlenecks scan ce ge)" for ce ge
    by (rule not_in_ids [OF ids_detectCPUBottlenecks]) simp
  moreover have "''gpu-vram-full'' \<notin> b_id ` set (detectRAMBottlenecks scan)"
    by (rule not_in_ids [OF ids_detectRAMBottlenecks]) simp
  moreover have "''gpu-vram-full'' \<notin> b_id ` set (hddBootFindings bd)" for bd
    by (rule not_in_ids [OF ids_hddBootFindings]) simp
  moreover have "''gpu-vram-full'' \<notin> b_id ` set (bootSpaceFindings bd)" for bd
    by (rule not_in_ids [OF ids_bootSpaceFindings]) simp
  moreover have "''gpu-vram-full'' \<notin> b_id ` set (noNVMeFindings ds)" for ds
    by (rule not_in_ids [OF ids_noNVMeFindings]) simp
  moreover have "''gpu-vram-full'' \<notin> b_id ` set (detectThermalBottlenecks scan)"
    by (rule not_in_ids [OF ids_detectThermalBottlenecks]) simp
  moreover have "''gpu-vram-full'' \<notin> b_id ` set (detectSettingsBottlenecks scan)"
    by (rule not_in_ids [OF ids_detectSettingsBottlenecks]) simp
  ultimately show ?thesis
    by (simp add: ids_analyzeScanWith ids_detectStorageBottlenecks health_id_not_fixed
        vram_finding_iff)
qed

lemma boot_space_ids_analyzeScanWith:
  assumes "i = ''storage-boot-almost-full'' \<or> i = ''storage-boot-getting-full''
           \<or> i = ''storage-hdd-boot''"
  shows "i \<in> b_id ` set (bottlenecks (analyzeScanWith cpuDb gpuDb scan))
     \<longleftrightarrow> i \<in> b_id ` set (hddBootFindings (find is_boot_drive (storage scan)))
         \<or> i \<in> b_id ` set (bootSpaceFindings (find is_boot_drive (storage scan)))"
proof -
  have "i \<notin> b_id ` set (detectCPUBottlenecks scan ce ge)" for ce ge
    using assms by (intro not_in_ids [OF ids_detectCPUBottlenecks]) auto
  moreover have "i \<notin> b_id ` set (detectGPUBottlenecks scan ce ge)" for ce ge
    using assms by (intro not_in_ids [OF ids_detectGPUBottlenecks]) auto
  moreover have "i \<notin> b_id ` set (detectRAMBottlenecks scan)"
    using assms by (intro not_in_ids [OF ids_detectRAMBottlenecks]) auto
  moreover have "i \<notin> b_id ` set (noNVMeFindings ds)" for ds
    using assms by (intro not_in_ids [OF ids_noNVMeFindings]) auto
  moreover have "i \<notin> b_id ` set (detectThermalBottlenecks scan)"
    using assms by (intro not_in_ids [OF ids_detectThermalBottlenecks]) auto
  moreover have "i \<notin> b_id ` set (detectSettingsBottlenecks scan)"
    using assms by (intro not_in_ids [OF ids_detectSettingsBottlenecks]) auto
  moreover have "i \<notin> b_id ` set (healthFindings ds)" for ds
    using assms by (auto dest!: ids_healthFindings)
  ultimately show ?thesis
    by (simp add: ids_analyzeScanWith ids_detectStorageBottlenecks)
qed

lemma storage_score_analyzeScanWith:
  "storage_score (breakdown (score (analyzeScanWith cpuDb gpuDb scan))) = storageScoreOf scan"
  by (simp add: score_analyzeScanWith breakdown_calculateScore)

lemma settings_score_analyzeScanWith:
  "settings_score (breakdown (score (analyzeScanWith cpuDb gpuDb scan))) = settingsScoreOf scan"
  by (simp add: score_analyzeScanWith breakdown_calculateScore)

text \<open>
  Claim C7. For every scan whose VRAM total is zero, the analysis returns a result with
  no finding \<open>gpu-vram-full\<close>, and the GPU score carries no VRAM deduction; for every
  scan whose boot drive has capacity zero, the result has neither the finding
  \<open>storage-boot-almost-full\<close> nor \<open>storage-boot-getting-full\<close>, and the storage score
  carries no fullness deduction.
\<close>

theorem C7_zero_denominators:
  "(vram_total_gb (gpu scan) = 0 \<longrightarrow>
      ''gpu-vram-full'' \<notin> b_id ` set (bottlenecks (analyzeScanWith cpuDb gpuDb scan))
      \<and> gpuVramPenalty (gpu scan) = 0
      \<and> gpu_score (breakdown (score (analyzeScanWith cpuDb gpuDb scan))) =
          clamp (tierBase (lookupEntry gpuDb (gpu_model_name (gpu scan)))
                 - gpuThermalPenalty (gpu scan)) 0 25)
   \<and> (find is_boot_drive (storage scan) = Some d \<and> capacity_gb d = 0 \<longrightarrow>
      ''storage-boot-almost-full'' \<notin> b_id ` set (bottlenecks (analyzeScanWith cpuDb gpuDb scan))
      \<and> ''storage-boot-getting-full'' \<notin> b_id ` set (bottlenecks (analyzeScanWith cpuDb gpuDb scan))
      \<and> storageSpacePenalty d = 0
      \<and> storage_score (breakdown (score (analyzeScanWith cpuDb gpuDb scan))) =
          clamp (storageBase d - storageHealthPenalty d) 0 15)"
proof (intro conjI impI)
  assume z: "vram_total_gb (gpu scan) = 0"
  then have nf: "\<not> vramNearlyFull (gpu scan)"
    by (simp add: vramNearlyFull_def)
  then show "''gpu-vram-full'' \<notin> b_id ` set (bottlenecks (analyzeScanWith cpuDb gpuDb scan))"
    by (simp add: vram_finding_analyzeScanWith)
  from nf show p: "gpuVramPenalty (gpu scan) = 0"
    by (simp add: gpuVramPenalty_def)
  then show "gpu_score (breakdown (score (analyzeScanWith cpuDb gpuDb scan))) =
          clamp (tierBase (lookupEntry gpuDb (gpu_model_name (gpu scan)))
                 - gpuThermalPenalty (gpu scan)) 0 25"
    by (simp add: gpu_score_analyzeScanWith gpuScoreOf_def)
next
  assume "find is_boot_drive (storage scan) = Some d \<and> capacity_gb d = 0"
  then have b: "find is_boot_drive (storage scan) = Some d" and c: "capacity_gb d = 0"
    by simp_all
  have e: "bootSpaceFindings (Some d) = []"
    using c by (simp add: bootSpaceFindings_def)
  have h1: "''storage-boot-almost-full'' \<notin> b_id ` set (hddBootFindings bd)" for bd
    by (rule not_in_ids [OF ids_hddBootFindings]) simp
  have h2: "''storage-boot-getting-full'' \<notin> b_id ` set (hddBootFindings bd)" for bd
    by (rule not_in_ids [OF ids_hddBootFindings]) simp
  show "''storage-boot-almost-full'' \<notin> b_id ` set (bottlenecks (analyzeScanWith cpuDb gpuDb scan))"
    by (simp add: boot_space_ids_analyzeScanWith b e h1)
  show "''storage-boot-getting-full'' \<notin> b_id ` set (bottlenecks (analyzeScanWith cpuDb gpuDb scan))"
    by (simp add: boot_space_ids_analyzeScanWith b e h2)
  show p: "storageSpacePenalty d = 0"
    using c by (simp add: storageSpacePenalty_def)
  show "storage_score (breakdown (score (analyzeScanWith cpuDb gpuDb scan))) =
          clamp (storageBase d - storageHealthPenalty d) 0 15"
    by (simp add: storage_score_analyzeScanWith storageScoreOf_def b p)
qed

subsection \<open>The XMP setting\<close>

lemma xmp_finding_analyzeScanWith:
  "''settings-xmp-off'' \<in> b_id ` set (bottlenecks (analyzeScanWith cpuDb gpuDb scan))
     \<longleftrightarrow> xmp_enabled (bios_settings scan) = Some False"
proof -
  have "''settings-xmp-off'' \<notin> b_id ` set (detectCPUBottlenecks scan ce ge)" for ce ge
    by (rule not_in_ids [OF ids_detectCPUBottlenecks]) simp
  moreover have "''settings-xmp-off'' \<notin> b_id ` set (detectGPUBottlenecks scan ce ge)" for ce ge
    by (rule not_in_ids [OF ids_detectGPUBottlenecks]) simp
  moreover have "''settings-xmp-off'' \<notin> b_id ` set (detectRAMBottlenecks scan)"
    by (rule not_in_ids [OF ids_detectRAMBottlenecks]) simp
  moreover have "''settings-xmp-off'' \<notin> b_id ` set (hddBootFindings bd)" for bd
    by (rule not_in_ids [OF ids_hddBootFindings]) simp
  moreover have "''settings-xmp-off'' \<notin> b_id ` set (bootSpaceFindings bd)" for bd
    by (rule not_in_ids [OF ids_bootSpaceFindings]) simp
  moreover have "''settings-xmp-off'' \<notin> b_id ` set (noNVMeFindings ds)" for ds
    by (rule not_in_ids [OF ids_noNVMeFindings]) simp
  moreover have "''settings-xmp-off'' \<notin> b_id ` set (detectThermalBottlenecks scan)"
    by (rule not_in_ids [OF ids_detectThermalBottlenecks]) simp
  ultimately show ?thesis
    by (simp add: ids_analyzeScanWith ids_detectStorageBottlenecks health_id_not_fixed
        xmp_finding_iff)
qed

lemma settingsScoreOf_sum:
  "settingsScoreOf scan =
     powerPlanPoints (os scan) + xmpPoints (bios_settings scan) + driverPoints (gpu scan)
     + rebarPoints (bios_settings scan) + gameModePoints (os scan)
     + gpuSchedulingPoints (os scan)"
  by (simp add: settingsScoreOf_def clamp_def powerPlanPoints_def xmpPoints_def
      driverPoints_def rebarPoints_def gameModePoints_def gpuSchedulingPoints_def Let_def)

text \<open>
  Claim C8. The critical finding \<open>settings-xmp-off\<close> is emitted exactly when
  \<open>xmp_enabled\<close> is explicitly false, never for the unknown value; and the settings
  score receives 5 for XMP explicitly true, 2 for unknown and 0 for explicitly false,
  next to the points of the other five settings.
\<close>

theorem C8_xmp_tristate:
  "(''settings-xmp-off'' \<in> b_id ` set (bottlenecks (analyzeScanWith cpuDb gpuDb scan))
      \<longleftrightarrow> xmp_enabled (bios_settings scan) = Some False)
   \<and> (mkBottleneck ''settings-xmp-off'' Cat_settings Critical Easy ''$0''
        \<in> set (bottlenecks (analyzeScanWith cpuDb gpuDb scan))
      \<longleftrightarrow> xmp_enabled (bios_settings scan) = Some False)
   \<and> xmpPoints (bios_settings scan) =
       (case xmp_enabled (bios_settings scan) of
          Some True \<Rightarrow> 5 | None \<Rightarrow> 2 | Some False \<Rightarrow> 0)
   \<and> settings_score (breakdown (score (analyzeScanWith cpuDb gpuDb scan))) =
       powerPlanPoints (os scan) + xmpPoints (bios_settings scan) + driverPoints (gpu scan)
       + rebarPoints (bios_settings scan) + gameModePoints (os scan)
       + gpuSchedulingPoints (os scan)"
proof (intro conjI)
  show i: "''settings-xmp-off'' \<in> b_id ` set (bottlenecks (analyzeScanWith cpuDb gpuDb scan))
      \<longleftrightarrow> xmp_enabled (bios_settings scan) = Some False"
    by (rule xmp_finding_analyzeScanWith)
  show "mkBottleneck ''settings-xmp-off'' Cat_settings Critical Easy ''$0''
        \<in> set (bottlenecks (analyzeScanWith cpuDb gpuDb scan))
      \<longleftrightarrow> xmp_enabled (bios_settings scan) = Some False"
  proof
    assume "mkBottleneck ''settings-xmp-off'' Cat_settings Critical Easy ''$0''
        \<in> set (bottlenecks (analyzeScanWith cpuDb gpuDb scan))"
    then have "b_id (mkBottleneck ''settings-xmp-off'' Cat_settings Critical Easy ''$0'')
        \<in> b_id ` set (bottlenecks (analyzeScanWith cpuDb gpuDb scan))"
      by (rule imageI)
    then show "xmp_enabled (bios_settings scan) = Some False"
      using i by simp
  next
    assume "xmp_enabled (bios_settings scan) = Some False"
    then have "mkBottleneck ''settings-xmp-off'' Cat_settings Critical Easy ''$0''
        \<in> set (detectSettingsBottlenecks scan)"
      by (simp add: detectSettingsBottlenecks_def Let_def)
    then show "mkBottleneck ''settings-xmp-off'' Cat_settings Critical Easy ''$0''
        \<in> set (bottlenecks (analyzeScanWith cpuDb gpuDb scan))"
      by (simp add: set_bottlenecks_analyzeScanWith detectAll_def)
  qed
  show "xmpPoints (bios_settings scan) =
       (case xmp_enabled (bios_settings scan) of
          Some True \<Rightarrow> 5 | None \<Rightarrow> 2 | Some False \<Rightarrow> 0)"
    by (simp add: xmpPoints_def split: option.splits bool.splits)
  show "settings_score (breakdown (score (analyzeScanWith cpuDb gpuDb scan))) =
       powerPlanPoints (os scan) + xmpPoints (bios_settings scan) + driverPoints (gpu scan)
       + rebarPoints (bios_settings scan) + gameModePoints (os scan)
       + gpuSchedulingPoints (os scan)"
    by (simp add: settings_score_analyzeScanWith settingsScoreOf_sum)
qed

subsection \<open>The price span of an upgrade recommendation\<close>

lemma foldl_min_le: "foldl min (a::rat) xs \<le> a"
proof (induction xs arbitrary: a)
  case Nil
  then show ?case by simp
next
  case (Cons x xs)
  have "foldl min (min a x) xs \<le> min a x" by (rule Cons.IH)
  then show ?case by simp
qed

lemma le_foldl_max: "(a::rat) \<le> foldl max a xs"
proof (induction xs arbitrary: a)
  case Nil
  then show ?case by simp
next
  case (Cons x xs)
  have "max a x \<le> foldl max (max a x) xs" by (rule Cons.IH)
  then show ?case by simp
qed

lemma minPrice_le_maxPrice: "minPrice u us \<le> maxPrice u us"
  unfolding minPrice_def maxPrice_def
  using foldl_min_le [of "current_price_approx u" "map current_price_approx us"]
    le_foldl_max [of "current_price_approx u" "map current_price_approx us"]
  by simp


lemma pushIf_all:
  assumes "list_all P (fst st)" and "\<And>p. P (mk p)"
  shows "list_all P (fst (pushIf c mk st))"
  using assms by (simp add: pushIf_def)

lemma pushUpgrade_all:
  assumes "list_all P (fst st)"
    and "\<And>lo hi p. lo \<le> hi \<Longrightarrow> P (mkRecommendation i Upgrade (CostRange lo hi) p)"
  shows "list_all P (fst (pushUpgrade i upgrades st))"
proof (cases upgrades)
  case Nil
  then show ?thesis
    using assms(1) by (simp add: pushUpgrade_def)
next
  case (Cons u us)
  have "P (mkRecommendation i Upgrade (CostRange (minPrice u us) (maxPrice u us)) p)" for p
    by (rule assms(2)) (rule minPrice_le_maxPrice)
  then show ?thesis
    using assms(1) Cons by (simp add: pushUpgrade_def pushIf_def)
qed

lemma caseUpgrade_all:
  assumes "list_all P (fst st)"
    and "\<And>lo hi p. lo \<le> hi \<Longrightarrow> P (mkRecommendation i Upgrade (CostRange lo hi) p)"
  shows "list_all P
           (fst (case entry of
                   Some e \<Rightarrow> if c then pushUpgrade i (f e) st else st
                 | None \<Rightarrow> st))"
  using assms by (cases entry) (simp_all add: pushUpgrade_all)

lemma buildRecommendations_upgrade_ranges:
  "list_all (\<lambda>r. rec_tier r = Upgrade \<longrightarrow>
               (\<exists>lo hi. r_estimated_cost r = CostRange lo hi \<and> lo \<le> hi))
     (buildRecommendations cpuDb gpuDb scan bs cpuEntry gpuEntry)"
  unfolding buildRecommendations_def Let_def
  by (intro caseUpgrade_all pushIf_all) simp_all

text \<open>
  Claim C9. For every scan and every pair of catalogs, every recommendation of the
  upgrade tier in the result carries a cost range whose displayed minimum is at most its
  displayed maximum.
\<close>

theorem C9_upgrade_price_span:
  "\<forall>r \<in> set (recommendations (analyzeScanWith cpuDb gpuDb scan)).
     rec_tier r = Upgrade \<longrightarrow>
       (\<exists>lo hi. r_estimated_cost r = CostRange lo hi \<and> lo \<le> hi)"
  using buildRecommendations_upgrade_ranges
  by (simp add: recommendations_analyzeScanWith set_sortBy list_all_iff)

subsection \<open>More than one boot drive\<close>

lemma find_first_boot:
  assumes "\<forall>x \<in> set pre. \<not> is_boot_drive x" and "is_boot_drive d"
  shows "find is_boot_drive (pre @ d # post) = Some d"
  using assms by (induction pre) simp_all

lemma hddBoot_id_iff:
  "''storage-hdd-boot'' \<in> b_id ` set (hddBootFindings (Some d)) \<longleftrightarrow> drive_type d = HDD"
  by (auto simp: hddBootFindings_def)

lemma bootSpace_almost_iff:
  "''storage-boot-almost-full'' \<in> b_id ` set (bootSpaceFindings (Some d))
     \<longleftrightarrow> capacity_gb d > 0 \<and> used_gb d / capacity_gb d > 9 / 10"
  by (auto simp: bootSpaceFindings_def Let_def)

lemma bootSpace_getting_iff:
  "''storage-boot-getting-full'' \<in> b_id ` set (bootSpaceFindings (Some d))
     \<longleftrightarrow> capacity_gb d > 0 \<and> \<not> used_gb d / capacity_gb d > 9 / 10
         \<and> used_gb d / capacity_gb d > 8 / 10"
  by (auto simp: bootSpaceFindings_def Let_def)

text \<open>
  Claim C10. When the storage list carries the boot flag on a drive \<open>d\<close> and on no drive
  before it, whatever the drives after \<open>d\<close> carry, the rules that depend on the boot
  drive (HDD boot, boot drive almost full, boot drive getting full) and the storage
  score with its penalties are those of \<open>d\<close>; and every drive of the list with a bad
  health status has its health finding in the result.
\<close>

theorem C10_first_boot_drive_decides:
  assumes "storage scan = pre @ d # post"
    and "\<forall>x \<in> set pre. \<not> is_boot_drive x"
    and "is_boot_drive d"
  shows "detectStorageBottlenecks scan =
           hddBootFindings (Some d) @ bootSpaceFindings (Some d)
           @ noNVMeFindings (storage scan) @ healthFindings (storage scan)
       \<and> (''storage-hdd-boot'' \<in> b_id ` set (bottlenecks (analyzeScanWith cpuDb gpuDb scan))
            \<longleftrightarrow> drive_type d = HDD)
       \<and> (''storage-boot-almost-full'' \<in> b_id ` set (bottlenecks (analyzeScanWith cpuDb gpuDb scan))
            \<longleftrightarrow> capacity_gb d > 0 \<and> used_gb d / capacity_gb d > 9 / 10)
       \<and> (''storage-boot-getting-full'' \<in> b_id ` set (bottlenecks (analyzeScanWith cpuDb gpuDb scan))
            \<longleftrightarrow> capacity_gb d > 0 \<and> \<not> used_gb d / capacity_gb d > 9 / 10
                \<and> used_gb d / capacity_gb d > 8 / 10)
       \<and> storage_score (breakdown (score (analyzeScanWith cpuDb gpuDb scan))) =
           clamp (storageBase d - storageSpacePenalty d - storageHealthPenalty d) 0 15
       \<and> (\<forall>x \<in> set (storage scan). unhealthy x \<longrightarrow>
            healthFinding x \<in> set (bottlenecks (analyzeScanWith cpuDb gpuDb scan)))"
proof -
  have b: "find is_boot_drive (storage scan) = Some d"
    unfolding assms(1) using assms(2,3) by (rule find_first_boot)
  have na: "''storage-boot-almost-full'' \<notin> b_id ` set (hddBootFindings bd)"
    and ng: "''storage-boot-getting-full'' \<notin> b_id ` set (hddBootFindings bd)" for bd
    by (rule not_in_ids [OF ids_hddBootFindings], simp)+
  have nh: "''storage-hdd-boot'' \<notin> b_id ` set (bootSpaceFindings bd)" for bd
    by (rule not_in_ids [OF ids_bootSpaceFindings]) simp
  have 1: "detectStorageBottlenecks scan =
           hddBootFindings (Some d) @ bootSpaceFindings (Some d)
           @ noNVMeFindings (storage scan) @ healthFindings (storage scan)"
    by (simp add: detectStorageBottlenecks_def Let_def b)
  have 2: "''storage-hdd-boot'' \<in> b_id ` set (bottlenecks (analyzeScanWith cpuDb gpuDb scan))
            \<longleftrightarrow> drive_type d = HDD"
    by (simp add: boot_space_ids_analyzeScanWith b nh hddBoot_id_iff)
  have 3: "''storage-boot-almost-full'' \<in> b_id ` set (bottlenecks (analyzeScanWith cpuDb gpuDb scan))
            \<longleftrightarrow> capacity_gb d > 0 \<and> used_gb d / capacity_gb d > 9 / 10"
    by (simp add: boot_space_ids_analyzeScanWith b na bootSpace_almost_iff)
  have 4: "''storage-boot-getting-full'' \<in> b_id ` set (bottlenecks (analyzeScanWith cpuDb gpuDb scan))
            \<longleftrightarrow> capacity_gb d > 0 \<and> \<not> used_gb d / capacity_gb d > 9 / 10
                \<and> used_gb d / capacity_gb d > 8 / 10"
    by (simp add: boot_space_ids_analyzeScanWith b ng bootSpace_getting_iff)
  have 5: "storage_score (breakdown (score (analyzeScanWith cpuDb gpuDb scan))) =
           clamp (storageBase d - storageSpacePenalty d - storageHealthPenalty d) 0 15"
    by (simp add: storage_score_analyzeScanWith storageScoreOf_def b)
  have 6: "\<forall>x \<in> set (storage scan). unhealthy x \<longrightarrow>
            healthFinding x \<in> set (bottlenecks (analyzeScanWith cpuDb gpuDb scan))"
    by (simp add: set_bottlenecks_analyzeScanWith detectAll_def detectStorageBottlenecks_def
        Let_def set_healthFindings)
  show ?thesis
    using 1 2 3 4 5 6 by blast
qed

section \<open>Concrete evaluations\<close>

subsection \<open>The two tables\<close>

text \<open>No key is declared twice, so the lookup of a key among the pairs is the property read.\<close>

lemma cpuDatabase_keys_distinct: "distinct (map fst cpuDatabase)"
  by code_simp

lemma gpuDatabase_keys_distinct: "distinct (map fst gpuDatabase)"
  by code_simp

text \<open>
  The lookup on the two tables. A name with surrounding blanks and capitals finds its
  own key. The short name \<open>RTX 4070\<close>, which is no key, finds the first key in table
  order that contains it. Trimming decides the result for a name with a leading blank:
  trimmed it is a key, untrimmed it is no key and the substring loop stops at an earlier
  pair.
\<close>

lemma lookupGPU_examples:
  "lookupGPU ''  NVIDIA GeForce RTX 4070  '' =
     Some (Entry (mkEntry ''NVIDIA GeForce RTX 4070'' High 68 2023 599 499))"
  "lookupGPU ''RTX 4070'' =
     Some (Entry (mkEntry ''NVIDIA GeForce RTX 4070 Ti SUPER'' High 80 2024 799 749))"
  by code_simp+

lemma lookupCPU_trims:
  "lookupCPU '' amd ryzen 7 5800x3d'' =
     Some (Entry (mkEntry ''AMD Ryzen 7 5800X3D'' High 85 2022 449 249))"
  "substringMatch '' amd ryzen 7 5800x3d'' cpuDatabase =
     Some (Entry (mkEntry ''AMD Ryzen 7 5800X'' High 78 2020 449 169))"
  "lookupCPU (CHR 0xA0 # ''AMD Ryzen 7 5800X3D'' @ [CHR 0x09]) =
     Some (Entry (mkEntry ''AMD Ryzen 7 5800X3D'' High 85 2022 449 249))"
  by code_simp+

subsection \<open>Claim C1 on the demo scan with unknown hardware\<close>

lemma unknownHardwareScan_cpu_lookup:
  "lookupEntry cpuDatabase (cpu_model_name (cpu unknownHardwareScan)) = None"
  by code_simp

lemma unknownHardwareScan_gpu_lookup:
  "lookupEntry gpuDatabase (gpu_model_name (gpu unknownHardwareScan)) = None"
  by code_simp

lemma unknownHardwareScan_penalties:
  "cpuThermalPenalty (cpu unknownHardwareScan) = 0"
  "cpuBoostPenalty (cpu unknownHardwareScan) = 0"
  "gpuThermalPenalty (gpu unknownHardwareScan) = 0"
  "gpuVramPenalty (gpu unknownHardwareScan) = 0"
  by code_simp+

text \<open>
  Claim C1, as stated, fails. In the demo scan with a CPU and a GPU that the tables do
  not list, both lookups return none, no thermal, boost or VRAM deduction applies, and
  both subsystem scores are 25, not the 14 that a base of 14 would give.
\<close>

theorem C1_counterexample:
  "lookupCPU (cpu_model_name (cpu unknownHardwareScan)) = None
   \<and> lookupGPU (gpu_model_name (gpu unknownHardwareScan)) = None
   \<and> cpu_score (breakdown (score (analyzeScan unknownHardwareScan))) = 25
   \<and> cpu_score (breakdown (score (analyzeScan unknownHardwareScan))) \<noteq>
       clamp (14 - cpuThermalPenalty (cpu unknownHardwareScan)
                 - cpuBoostPenalty (cpu unknownHardwareScan)) 0 25
   \<and> gpu_score (breakdown (score (analyzeScan unknownHardwareScan))) = 25
   \<and> gpu_score (breakdown (score (analyzeScan unknownHardwareScan))) \<noteq>
       clamp (14 - gpuThermalPenalty (gpu unknownHardwareScan)
                 - gpuVramPenalty (gpu unknownHardwareScan)) 0 25"
  by (simp add: lookupCPU_def lookupGPU_def analyzeScan_def cpu_score_analyzeScanWith
      gpu_score_analyzeScanWith cpuScoreOf_def gpuScoreOf_def tierBase_def clamp_def
      unknownHardwareScan_cpu_lookup unknownHardwareScan_gpu_lookup
      unknownHardwareScan_penalties)

theorem C1_unknown_model_witness:
  "lookupEntry cpuDatabase (cpu_model_name (cpu unknownHardwareScan)) = None
   \<and> lookupEntry gpuDatabase (gpu_model_name (gpu unknownHardwareScan)) = None
   \<and> cpu_score (breakdown (score (analyzeScanWith cpuDatabase gpuDatabase unknownHardwareScan))) = 25
   \<and> gpu_score (breakdown (score (analyzeScanWith cpuDatabase gpuDatabase unknownHardwareScan))) = 25"
  using C1_unknown_model_scores_from_25 [of cpuDatabase unknownHardwareScan gpuDatabase]
  by (simp add: unknownHardwareScan_cpu_lookup unknownHardwareScan_gpu_lookup
      unknownHardwareScan_penalties clamp_def)

subsection \<open>Claim C4 on the demo scan with one DDR4 stick\<close>

lemma singleChannelScan_ram:
  "channel_mode (ram singleChannelScan) = Single"
  "str_includes (form_factor (ram singleChannelScan)) ''DDR4''"
  "speed_mhz (ram singleChannelScan) = 2133"
  "total_gb (ram singleChannelScan) = 16"
  "usage_percent (ram singleChannelScan) = 40"
  by code_simp+

lemma singleChannelScan_score:
  "ramCapacityPenalty (ram singleChannelScan) = 1"
  "ramScoreOf singleChannelScan = 1"
  by code_simp+

text \<open>
  Claim C4, as stated, fails. The demo scan with the RAM section of the claim satisfies
  every condition of the claim, and its capacity deduction is not zero: the RAM score
  is 1, not 20 - 10 - 8.
\<close>

theorem C4_counterexample:
  "channel_mode (ram singleChannelScan) = Single
   \<and> str_includes (form_factor (ram singleChannelScan)) ''DDR4''
   \<and> speed_mhz (ram singleChannelScan) = 2133
   \<and> total_gb (ram singleChannelScan) = 16
   \<and> usage_percent (ram singleChannelScan) = 40
   \<and> ramCapacityPenalty (ram singleChannelScan) \<noteq> 0
   \<and> ram_score (breakdown (score (analyzeScan singleChannelScan))) = 1
   \<and> ram_score (breakdown (score (analyzeScan singleChannelScan))) \<noteq> 20 - 10 - 8"
  by (simp add: singleChannelScan_ram singleChannelScan_score analyzeScan_def
      ram_score_analyzeScanWith)

theorem C4_single_channel_witness:
  "mkBottleneck ''ram-single-channel'' Cat_ram Critical Medium ''$25 - $60''
     \<in> set (bottlenecks (analyzeScanWith cpuDatabase gpuDatabase singleChannelScan))
   \<and> mkBottleneck ''ram-slow-speed'' Cat_ram Critical Easy ''$0''
     \<in> set (bottlenecks (analyzeScanWith cpuDatabase gpuDatabase singleChannelScan))
   \<and> ram_score (breakdown (score (analyzeScanWith cpuDatabase gpuDatabase singleChannelScan))) \<le> 1"
  using C4_single_channel_jedec_ddr4 [OF singleChannelScan_ram, of cpuDatabase gpuDatabase]
  by simp

subsection \<open>Claim C5 on the names of inherited members\<close>

text \<open>
  Claim C5 fails on the code. The model names \<open>constructor\<close> and \<open>__proto__\<close> are keys
  of neither table, and no key of either table contains them or is contained in them, so
  the lookup of the claim returns none; the code's property read finds the member that
  the table object inherits and returns it, a value that is no catalog entry.
\<close>

theorem C5_inherited_member_returned:
  "lookupCPU ''constructor'' = Some (Inherited ''constructor'')
   \<and> lookup_spec cpuDatabase ''constructor'' = None
   \<and> lookupGPU ''__proto__'' = Some (Inherited ''__proto__'')
   \<and> lookup_spec gpuDatabase ''__proto__'' = None"
  by code_simp

subsection \<open>Claim C6 on a table with a negative price, and on the CPU table\<close>

lemma refund_upgrades:
  "getUpgrades lowPart refundCatalog 2 = [dollarPart, refundPart]"
  "getUpgrades lowPart refundCatalog (-1) = [dollarPart]"
  "valueRatio_spec dollarPart = 40"
  "valueRatio_spec refundPart = 50"
  by code_simp+

text \<open>
  Claim C6, as stated, fails twice. With a negative price the code divides by the price
  itself, not by \<open>max(price, 1)\<close>: the table of the refund part and the dollar part is
  returned with the dollar part first, although the ratio with the guarded denominator
  of the claim ranks the refund part higher. And with \<open>maxResults = -1\<close> the slice drops
  the last candidate and returns one entry, which is more than \<open>maxResults\<close>.
\<close>

theorem C6_counterexample:
  "getUpgrades lowPart refundCatalog 2 = [dollarPart, refundPart]
   \<and> valueRatio_spec dollarPart < valueRatio_spec refundPart
   \<and> int (length (getUpgrades lowPart refundCatalog (-1))) > -1"
  by (simp add: refund_upgrades)

lemma cpuDatabase_upgrades:
  "getUpgrades (mkEntry ''AMD Ryzen 7 5800X'' High 78 2020 449 169) cpuDatabase 2 =
     [mkEntry ''AMD Ryzen 7 7800X3D'' Very_high 96 2023 449 339,
      mkEntry ''Intel Core i7-14700K'' Very_high 92 2023 419 329]"
  by code_simp

theorem C6_getUpgrades_witness:
  "getUpgrades (mkEntry ''AMD Ryzen 7 5800X'' High 78 2020 449 169) cpuDatabase 2 =
     [mkEntry ''AMD Ryzen 7 7800X3D'' Very_high 96 2023 449 339,
      mkEntry ''Intel Core i7-14700K'' Very_high 92 2023 419 329]
   \<and> tierIndex Very_high > tierIndex High
   \<and> valueRatio (mkEntry ''AMD Ryzen 7 7800X3D'' Very_high 96 2023 449 339)
       \<ge> valueRatio (mkEntry ''Intel Core i7-14700K'' Very_high 92 2023 419 329)
   \<and> getUpgrades (mkEntry ''AMD Ryzen 7 9800X3D'' Very_high 98 2024 479 449) cpuDatabase 2 = []"
proof -
  have top: "\<forall>e \<in> snd ` set cpuDatabase.
      \<not> tierIndex (tier e) > tierIndex (tier (mkEntry ''AMD Ryzen 7 9800X3D'' Very_high 98 2024 479 449))"
    by (simp add: tierIndex_cases split: HardwareTier.splits)
  show ?thesis
    using C6_getUpgrades [of "mkEntry ''AMD Ryzen 7 5800X'' High 78 2020 449 169" cpuDatabase 2]
      C6_getUpgrades [of "mkEntry ''AMD Ryzen 7 9800X3D'' Very_high 98 2024 479 449" cpuDatabase 2]
      top
    by (simp add: cpuDatabase_upgrades)
qed

subsection \<open>Claim C7 on the demo scan with zero VRAM total and zero boot capacity\<close>

lemma zeroDenominatorScan_facts:
  "vram_total_gb (gpu zeroDenominatorScan) = 0"
  "find is_boot_drive (storage zeroDenominatorScan) = Some flashDisk"
  "capacity_gb flashDisk = 0"
  "storageBase flashDisk = 10"
  "storageHealthPenalty flashDisk = 0"
  by code_simp+

theorem C7_zero_denominators_witness:
  "vram_total_gb (gpu zeroDenominatorScan) = 0
   \<and> find is_boot_drive (storage zeroDenominatorScan) = Some flashDisk
   \<and> capacity_gb flashDisk = 0
   \<and> ''gpu-vram-full''
        \<notin> b_id ` set (bottlenecks (analyzeScanWith cpuDatabase gpuDatabase zeroDenominatorScan))
   \<and> ''storage-boot-almost-full''
        \<notin> b_id ` set (bottlenecks (analyzeScanWith cpuDatabase gpuDatabase zeroDenominatorScan))
   \<and> ''storage-boot-getting-full''
        \<notin> b_id ` set (bottlenecks (analyzeScanWith cpuDatabase gpuDatabase zeroDenominatorScan))
   \<and> storage_score (breakdown (score (analyzeScanWith cpuDatabase gpuDatabase zeroDenominatorScan)))
        = 10"
  using C7_zero_denominators [of zeroDenominatorScan cpuDatabase gpuDatabase flashDisk]
  by (simp add: zeroDenominatorScan_facts clamp_def)

subsection \<open>Claim C9 on the CPU-bound demo scan\<close>

lemma cpuBoundScan_recommendations:
  "recommendations (analyzeScanWith cpuDatabase gpuDatabase cpuBoundScan) =
     [mkRecommendation ''rec-enable-xmp'' Free (CostText ''$0'') 1,
      mkRecommendation ''rec-power-plan'' Free (CostText ''$0'') 2,
      mkRecommendation ''rec-enable-rebar'' Free (CostText ''$0'') 3,
      mkRecommendation ''rec-gpu-scheduling'' Free (CostText ''$0'') 4,
      mkRecommendation ''rec-cpu-upgrade'' Upgrade (CostRange 329 339) 5]"
  by code_simp

theorem C9_upgrade_price_span_witness:
  "mkRecommendation ''rec-cpu-upgrade'' Upgrade (CostRange 329 339) 5
     \<in> set (recommendations (analyzeScanWith cpuDatabase gpuDatabase cpuBoundScan))
   \<and> (\<exists>lo hi. CostRange 329 339 = CostRange lo hi \<and> lo \<le> hi)"
  using C9_upgrade_price_span [of cpuDatabase gpuDatabase cpuBoundScan]
  by (simp add: cpuBoundScan_recommendations)

subsection \<open>Claim C10 on the demo scan with two boot drives\<close>

lemma twoBootDrivesScan_facts:
  "storage twoBootDrivesScan = [dataSsd] @ bootHdd # [bootNvme]"
  "\<forall>x \<in> set [dataSsd]. \<not> is_boot_drive x"
  "is_boot_drive bootHdd"
  "is_boot_drive bootNvme"
  "drive_type bootHdd = HDD"
  "storageBase bootHdd - storageSpacePenalty bootHdd - storageHealthPenalty bootHdd = 2"
  "unhealthy bootNvme"
  "healthFinding bootNvme =
     mkBottleneck ''storage-health-samsung-980-pro-1tb'' Cat_storage Critical Medium ''$40 - $150''"
  by code_simp+

theorem C10_first_boot_drive_witness:
  "is_boot_drive bootHdd \<and> is_boot_drive bootNvme
   \<and> ''storage-hdd-boot''
        \<in> b_id ` set (bottlenecks (analyzeScanWith cpuDatabase gpuDatabase twoBootDrivesScan))
   \<and> storage_score (breakdown (score (analyzeScanWith cpuDatabase gpuDatabase twoBootDrivesScan)))
        = 2
   \<and> mkBottleneck ''storage-health-samsung-980-pro-1tb'' Cat_storage Critical Medium ''$40 - $150''
        \<in> set (bottlenecks (analyzeScanWith cpuDatabase gpuDatabase twoBootDrivesScan))"
  using C10_first_boot_drive_decides [OF twoBootDrivesScan_facts(1,2,3), of cpuDatabase gpuDatabase]
  by (simp add: twoBootDrivesScan_facts clamp_def)

end
